theory Spec2Isabelle
  imports Complex_Main "HOL-Library.Product_Lexorder" "HOL-Library.Log_Nat"
begin

section \<open>Numbers, strings and genders\<close>

text \<open>
  The hour figures, work units and prices of the converter are JavaScript numbers, that
  is IEEE 754 binary64 values. A finite one is modelled by the rational number it
  denotes (every constant of the rate tables, 8, 6, 2.5, 1, 0.75, 0.3125, 0.125 and the
  prices, is a dyadic rational); comparison and equality of finite numbers are those of
  the rationals. The products and sums of the wage calculation round to binary64, and
  are modelled with that rounding below.
  A string is the list of its UTF-16 code units, so that the Hangul labels of the
  attendance sheet are written by their code points.
\<close>

type_synonym jstring = "nat list"

datatype gender = Nam | Yeo
  \<comment> \<open>the union type of the two one-syllable strings U+B0A8 (male) and U+C5EC (female)\<close>

subsection \<open>Arithmetic that rounds\<close>

text \<open>
  The result of a product or a sum is a number that may be infinite. The two zeros of
  binary64 are one value here (they are equal under every comparison the converter
  makes).
\<close>

datatype number = Fin rat | PosInf | NegInf | NaN

definition pow2 :: "int \<Rightarrow> rat" where
  "pow2 e = (if 0 \<le> e then 2 ^ nat e else 1 / 2 ^ nat (- e))"

definition binade :: "rat \<Rightarrow> int" where
  \<comment> \<open>for \<open>a > 0\<close>, the exponent \<open>e\<close> with \<open>2^e \<le> a < 2^(e+1)\<close>, found from the bit
      lengths of numerator and denominator\<close>
  "binade a =
     (let (p, d) = quotient_of a; b = bitlen p - bitlen d
      in if pow2 b \<le> a then b else b - 1)"

definition roundHalfEven :: "rat \<Rightarrow> int" where
  \<comment> \<open>the nearest integer, a tie going to the even one\<close>
  "roundHalfEven x =
     (let f = \<lfloor>x\<rfloor>; r = x - of_int f
      in if r < 1 / 2 then f else if 1 / 2 < r then f + 1 else if even f then f else f + 1)"

definition roundDouble :: "rat \<Rightarrow> number" where
  \<comment> \<open>round to nearest, ties to even, in binary64: 53 significant bits, exponents from
      -1022 (below it the spacing stays \<open>2^-1074\<close>), infinite from \<open>2^1024\<close> on\<close>
  "roundDouble q =
     (if q = 0 then Fin 0
      else let e = max (binade \<bar>q\<bar>) (- 1022);
               ulp = pow2 (e - 52);
               r = of_int (roundHalfEven (\<bar>q\<bar> / ulp)) * ulp
           in if pow2 1024 \<le> r then (if 0 < q then PosInf else NegInf)
              else Fin (sgn q * r))"

definition fmul :: "rat \<Rightarrow> rat \<Rightarrow> number" where
  \<comment> \<open>the product \<open>x * y\<close> of two finite numbers\<close>
  "fmul x y = roundDouble (x * y)"

fun fadd :: "number \<Rightarrow> number \<Rightarrow> number" where
  \<comment> \<open>the sum \<open>x + y\<close> of two numbers\<close>
  "fadd (Fin x) (Fin y) = roundDouble (x + y)"
| "fadd NaN _ = NaN"
| "fadd _ NaN = NaN"
| "fadd PosInf NegInf = NaN"
| "fadd NegInf PosInf = NaN"
| "fadd PosInf _ = PosInf"
| "fadd _ PosInf = PosInf"
| "fadd NegInf _ = NegInf"
| "fadd _ NegInf = NegInf"

definition Math_round :: "number \<Rightarrow> number" where
  \<comment> \<open>\<open>Math.round\<close>: the nearest integer, a tie going to the larger one; an integer
      below \<open>2^53\<close> in size is a binary64 value, and a larger finite number is already
      an integer\<close>
  "Math_round n = (case n of Fin x \<Rightarrow> Fin (of_int \<lfloor>x + 1 / 2\<rfloor>) | _ \<Rightarrow> n)"

section \<open>Rate tables (shared/schema.ts)\<close>

record rate =
  units :: rat
  price :: rat

definition maleRates :: "(rat \<times> rate) list" where
  "maleRates =
     [(8, \<lparr>units = 1, price = 117480\<rparr>),
      (6, \<lparr>units = 3 / 4, price = 88110\<rparr>),
      (5 / 2, \<lparr>units = 5 / 16, price = 36713\<rparr>),
      (1, \<lparr>units = 1 / 8, price = 14685\<rparr>)]"

definition femaleRates :: "(rat \<times> rate) list" where
  "femaleRates =
     [(8, \<lparr>units = 1, price = 108680\<rparr>),
      (6, \<lparr>units = 3 / 4, price = 81510\<rparr>),
      (5 / 2, \<lparr>units = 5 / 16, price = 33963\<rparr>),
      (1, \<lparr>units = 1 / 8, price = 13585\<rparr>)]"

definition getWorkUnits :: "gender \<Rightarrow> rat \<Rightarrow> rat" where
  "getWorkUnits g basicHours =
     (let rates = (if g = Nam then maleRates else femaleRates)
      in case map_of rates basicHours of Some r \<Rightarrow> units r | None \<Rightarrow> 0)"

definition getUnitPrice :: "gender \<Rightarrow> rat \<Rightarrow> rat" where
  "getUnitPrice g basicHours =
     (let rates = (if g = Nam then maleRates else femaleRates)
      in case map_of rates basicHours of Some r \<Rightarrow> price r | None \<Rightarrow> 0)"

definition calculateTotal :: "rat \<Rightarrow> rat \<Rightarrow> number" where
  "calculateTotal workUnits unitPrice = Math_round (fmul workUnits unitPrice)"

section \<open>Surcharge formulas\<close>

text \<open>
  The quotient \<open>hours / 8\<close> is kept exact: dividing a binary64 value by 8 only lowers its
  exponent. (Below \<open>2^-1019\<close> the code's quotient is subnormal and may round; its product
  with a base price is then below \<open>2^-1000\<close> with or without that rounding, and
  \<open>Math.round\<close> takes it to 0.) The product with the base price does round.
\<close>

definition getWeekendSpecialWorkUnits :: "rat \<Rightarrow> rat" where
  "getWeekendSpecialWorkUnits hours =
     (if hours = 8 then 1
      else if hours = 6 then 3 / 4
      else if hours = 5 / 2 then 5 / 16
      else if hours = 1 then 1 / 8
      else hours / 8)"

definition getWeekendSpecialUnitPrice :: "rat \<Rightarrow> number" where
  "getWeekendSpecialUnitPrice hours =
     (let basePrice = 171800; workUnits = getWeekendSpecialWorkUnits hours
      in Math_round (fmul basePrice workUnits))"

definition getWeeklyHolidayWorkUnits :: "rat \<Rightarrow> rat" where
  "getWeeklyHolidayWorkUnits hours =
     (if hours = 8 then 1
      else if hours = 6 then 3 / 4
      else if hours = 5 / 2 then 5 / 16
      else if hours = 1 then 1 / 8
      else hours / 8)"

definition getWeeklyHolidayUnitPrice :: "rat \<Rightarrow> number" where
  "getWeeklyHolidayUnitPrice hours =
     (let basePrice = 99600; workUnits = getWeeklyHolidayWorkUnits hours
      in Math_round (fmul basePrice workUnits))"

section \<open>Reconstructed attendance rows and the statement rows written from them\<close>

record attendance_row =
  gender :: gender
  name :: jstring
  date :: nat
    \<comment> \<open>the source keeps \<open>String(day)\<close> and reads it back with \<open>parseInt\<close>;
        the model keeps the day number\<close>
  basicHours :: rat
  overtimeHours :: rat
  weekendSpecialHours :: rat
  weeklyHolidayHours :: rat

text \<open>
  One array handed to \<open>worksheet.addRow\<close> by \<open>createOutputWorkbook\<close>. A column that
  holds either a number or the empty string is an option (\<open>None\<close> is the empty
  string). The work-unit column holds the number that \<open>formatWorkUnits\<close> renders; the
  always-empty eleventh column, the fonts, borders and column widths are presentation
  and carry no value.
\<close>

record output_row =
  col_no :: nat
  col_date :: "jstring \<times> nat"  \<comment> \<open>month text and day, joined by a slash in the source\<close>
  col_gender :: gender
  col_name :: jstring
  col_basic :: "rat option"
  col_overtime :: "rat option"
  col_weekendSpecial :: "rat option"
  col_weeklyHoliday :: "rat option"
  col_workUnits :: "rat option"
  col_unitPrice :: "rat option"
  col_total :: number

definition orBlank :: "rat \<Rightarrow> rat option" where
  \<comment> \<open>\<open>x > 0 ? x : ''\<close>\<close>
  "orBlank x = (if x > 0 then Some x else None)"

definition basicTotal :: "attendance_row \<Rightarrow> number" where
  \<comment> \<open>the local \<open>basicTotal\<close> of the loop over the rows\<close>
  "basicTotal row =
     (let workUnits = (if basicHours row > 0 then getWorkUnits (gender row) (basicHours row) else 0);
          unitPrice = (if basicHours row > 0 then getUnitPrice (gender row) (basicHours row) else 0)
      in calculateTotal workUnits unitPrice)"

definition weekendSpecialTotal :: "attendance_row \<Rightarrow> number" where
  \<comment> \<open>the local \<open>weekendSpecialTotal\<close>\<close>
  "weekendSpecialTotal row =
     (if weekendSpecialHours row > 0
      then getWeekendSpecialUnitPrice (weekendSpecialHours row) else Fin 0)"

definition weeklyHolidayTotal :: "attendance_row \<Rightarrow> number" where
  \<comment> \<open>the local \<open>weeklyHolidayTotal\<close>\<close>
  "weeklyHolidayTotal row =
     (if weeklyHolidayHours row > 0
      then getWeeklyHolidayUnitPrice (weeklyHolidayHours row) else Fin 0)"

definition outputRow :: "jstring \<Rightarrow> nat \<Rightarrow> attendance_row \<Rightarrow> output_row" where
  "outputRow month index row =
     (let workUnits = (if basicHours row > 0 then getWorkUnits (gender row) (basicHours row) else 0);
          unitPrice = (if basicHours row > 0 then getUnitPrice (gender row) (basicHours row) else 0);
          total = fadd (fadd (basicTotal row) (weekendSpecialTotal row)) (weeklyHolidayTotal row)
      in \<lparr>col_no = index + 1,
          col_date = (month, date row),
          col_gender = gender row,
          col_name = name row,
          col_basic = orBlank (basicHours row),
          col_overtime = orBlank (overtimeHours row),
          col_weekendSpecial = orBlank (weekendSpecialHours row),
          col_weeklyHoliday = orBlank (weeklyHolidayHours row),
          col_workUnits = orBlank workUnits,
          col_unitPrice = orBlank unitPrice,
          col_total = total\<rparr>)"

definition createOutputRows :: "jstring \<Rightarrow> attendance_row list \<Rightarrow> output_row list" where
  \<comment> \<open>the \<open>data.forEach((row, index) => ...)\<close> of \<open>createOutputWorkbook\<close>\<close>
  "createOutputRows month data = map (\<lambda>(index, row). outputRow month index row) (enumerate 0 data)"

section \<open>The worksheet as the parser reads it\<close>

text \<open>
  A cell value of the spreadsheet library is empty, a number, a string, a date or a
  rich-text object. The parser looks at a value through JavaScript built-ins; what those
  return for the value is part of the model's input, next to the value itself:
  a number comes with its rendering \<open>String(n)\<close>, a string with \<open>parseFloat(s) || 0\<close>,
  a date with its day of the month \<open>getDate()\<close> and its rendering \<open>String(d)\<close>. Every
  theorem below holds for whatever these are.
\<close>

datatype cell_value =
    Null  \<comment> \<open>no value\<close>
  | Num rat jstring  \<comment> \<open>a number \<open>n\<close>, and \<open>String(n)\<close>\<close>
  | Str jstring rat  \<comment> \<open>a string \<open>s\<close>, and \<open>parseFloat(s) || 0\<close>\<close>
  | DateVal nat jstring  \<comment> \<open>a date \<open>d\<close>: \<open>d.getDate()\<close> and \<open>String(d)\<close>\<close>
  | Rich "jstring list"  \<comment> \<open>a rich-text object: the texts of its runs\<close>

type_synonym sheet_row = "cell_value list"

type_synonym worksheet = "sheet_row list"

definition rowCount :: "worksheet \<Rightarrow> nat" where
  "rowCount ws = length ws"

definition getRow :: "worksheet \<Rightarrow> nat \<Rightarrow> sheet_row" where
  \<comment> \<open>rows are numbered from 1\<close>
  "getRow ws rowNum = (if 1 \<le> rowNum \<and> rowNum \<le> length ws then ws ! (rowNum - 1) else [])"

definition getCell :: "sheet_row \<Rightarrow> nat \<Rightarrow> cell_value" where
  \<comment> \<open>columns are numbered from 1; a cell that does not exist has the value null\<close>
  "getCell row colNumber =
     (if 1 \<le> colNumber \<and> colNumber \<le> length row then row ! (colNumber - 1) else Null)"

definition eachCell :: "sheet_row \<Rightarrow> (nat \<times> cell_value) list" where
  \<comment> \<open>\<open>row.eachCell\<close> visits the cells that hold a value, by ascending column\<close>
  "eachCell row = filter (\<lambda>(colNumber, v). v \<noteq> Null) (enumerate 1 row)"

subsection \<open>Strings\<close>

definition isWhiteSpace :: "nat \<Rightarrow> bool" where
  \<comment> \<open>the white space and line terminators that \<open>String.prototype.trim\<close> strips\<close>
  "isWhiteSpace c \<longleftrightarrow>
     c \<in> set [9, 10, 11, 12, 13, 32, 160, 5760, 8232, 8233, 8239, 8287, 12288, 65279]
     \<or> (8192 \<le> c \<and> c \<le> 8202)"

definition trim :: "jstring \<Rightarrow> jstring" where
  "trim s = rev (dropWhile isWhiteSpace (rev (dropWhile isWhiteSpace s)))"

definition objectObject :: jstring where
  \<comment> \<open>\<open>String\<close> of a plain object: [object Object]\<close>
  "objectObject = [91, 111, 98, 106, 101, 99, 116, 32, 79, 98, 106, 101, 99, 116, 93]"

definition stringOrEmpty :: "cell_value \<Rightarrow> jstring" where
  \<comment> \<open>\<open>String(cell.value || '')\<close>: null, 0 and the empty string are falsy\<close>
  "stringOrEmpty v =
     (case v of
        Null \<Rightarrow> []
      | Num n text \<Rightarrow> (if n = 0 then [] else text)
      | Str s _ \<Rightarrow> s
      | DateVal _ text \<Rightarrow> text
      | Rich _ \<Rightarrow> objectObject)"

definition cellText :: "cell_value \<Rightarrow> jstring" where
  \<comment> \<open>\<open>String(cell.value || '').trim()\<close>\<close>
  "cellText v = trim (stringOrEmpty v)"

text \<open>The Hangul labels, by code unit.\<close>

definition seongbyeol :: jstring where  \<comment> \<open>gender header, U+C131 U+BCC4\<close>
  "seongbyeol = [49457, 48324]"

definition seongmyeong :: jstring where  \<comment> \<open>full-name header, U+C131 U+BA85\<close>
  "seongmyeong = [49457, 47749]"

definition ireum :: jstring where  \<comment> \<open>name header, U+C774 U+B984\<close>
  "ireum = [51060, 47492]"

definition gubun :: jstring where  \<comment> \<open>category header, U+AD6C U+BD84\<close>
  "gubun = [44396, 48516]"

definition gibon :: jstring where  \<comment> \<open>category basic, U+AE30 U+BCF8\<close>
  "gibon = [44592, 48376]"

definition yeonjang :: jstring where  \<comment> \<open>category overtime, U+C5F0 U+C7A5\<close>
  "yeonjang = [50672, 51109]"

definition jutuk :: jstring where  \<comment> \<open>category weekend-special, U+C8FC U+D2B9\<close>
  "jutuk = [51452, 53945]"

definition juhyu :: jstring where  \<comment> \<open>category weekly-holiday, U+C8FC U+D734\<close>
  "juhyu = [51452, 55092]"

definition genderText :: "gender \<Rightarrow> jstring" where
  "genderText g = (case g of Nam \<Rightarrow> [45224] | Yeo \<Rightarrow> [50668])"

subsection \<open>The two patterns of the date-column scan\<close>

definition isDigit :: "nat \<Rightarrow> bool" where
  "isDigit c \<longleftrightarrow> 48 \<le> c \<and> c \<le> 57"

definition digitVal :: "nat \<Rightarrow> nat" where
  "digitVal c = c - 48"

fun digits12 :: "jstring \<Rightarrow> nat option" where
  \<comment> \<open>a greedy \<open>\d{1,2}\<close> at the head of the string, as \<open>parseInt\<close> reads what it captured\<close>
  "digits12 [] = None"
| "digits12 [a] = (if isDigit a then Some (digitVal a) else None)"
| "digits12 (a # b # rest) =
     (if isDigit a \<and> isDigit b then Some (10 * digitVal a + digitVal b)
      else if isDigit a then Some (digitVal a)
      else None)"

fun monthDayAt :: "jstring \<Rightarrow> nat option" where
  \<comment> \<open>\<open>(\d{1,2})\/(\d{1,2})\<close> matched at the head: two digits before the slash are tried
      first, then one; the result is the second group\<close>
  "monthDayAt (a # b # rest) =
     (case (if isDigit a \<and> isDigit b
            then (case rest of [] \<Rightarrow> None | c # rest' \<Rightarrow> if c = 47 then digits12 rest' else None)
            else None) of
        Some d \<Rightarrow> Some d
      | None \<Rightarrow> if isDigit a \<and> b = 47 then digits12 rest else None)"
| "monthDayAt _ = None"

fun matchMonthDay :: "jstring \<Rightarrow> nat option" where
  \<comment> \<open>\<open>value.match(/(\d{1,2})\/(\d{1,2})/)\<close>: the leftmost match, \<open>parseInt\<close> of group 2\<close>
  "matchMonthDay [] = None"
| "matchMonthDay (c # cs) =
     (case monthDayAt (c # cs) of Some d \<Rightarrow> Some d | None \<Rightarrow> matchMonthDay cs)"

definition matchDayOnly :: "jstring \<Rightarrow> nat option" where
  \<comment> \<open>\<open>value.match(/^(\d{1,2})$/)\<close>, \<open>parseInt\<close> of group 1\<close>
  "matchDayOnly s =
     (if (length s = 1 \<or> length s = 2) \<and> list_all isDigit s then digits12 s else None)"

section \<open>parseAttendanceSheet: header detection\<close>

record header_state =
  genderColIndex :: int
  nameColIndex :: int
  categoryColIndex :: int
  headerRowIndex :: int

definition headerInit :: header_state where
  "headerInit =
     \<lparr>genderColIndex = - 1, nameColIndex = - 1, categoryColIndex = - 1, headerRowIndex = - 1\<rparr>"

definition headerCell :: "nat \<Rightarrow> header_state \<Rightarrow> nat \<times> cell_value \<Rightarrow> header_state" where
  \<comment> \<open>the callback of \<open>row.eachCell\<close> in the header loop\<close>
  "headerCell rowNum st cc =
     (case cc of (colNumber, cell) \<Rightarrow>
        let v = cellText cell
        in if v = seongbyeol
           then st\<lparr>genderColIndex := int colNumber, headerRowIndex := int rowNum\<rparr>
           else if v = seongmyeong \<or> v = ireum then st\<lparr>nameColIndex := int colNumber\<rparr>
           else if v = gubun then st\<lparr>categoryColIndex := int colNumber\<rparr>
           else st)"

definition headerFound :: "header_state \<Rightarrow> bool" where
  "headerFound st \<longleftrightarrow> genderColIndex st > 0 \<and> nameColIndex st > 0 \<and> categoryColIndex st > 0"

fun headerScan :: "worksheet \<Rightarrow> header_state \<Rightarrow> nat list \<Rightarrow> header_state" where
  \<comment> \<open>the loop over the row numbers still to visit; the \<open>break\<close> is tested after a row\<close>
  "headerScan ws st [] = st"
| "headerScan ws st (rowNum # rest) =
     (let st' = foldl (headerCell rowNum) st (eachCell (getRow ws rowNum))
      in if headerFound st' then st' else headerScan ws st' rest)"

definition detectHeader :: "worksheet \<Rightarrow> header_state" where
  "detectHeader ws = headerScan ws headerInit [1..<Suc (min 15 (rowCount ws))]"

definition headerDefaults :: "header_state \<Rightarrow> header_state" where
  "headerDefaults st =
     \<lparr>genderColIndex = (if genderColIndex st = - 1 then 1 else genderColIndex st),
      nameColIndex = (if nameColIndex st = - 1 then 2 else nameColIndex st),
      categoryColIndex = (if categoryColIndex st = - 1 then 3 else categoryColIndex st),
      headerRowIndex = (if headerRowIndex st = - 1 then 1 else headerRowIndex st)\<rparr>"

section \<open>parseAttendanceSheet: the date-column scan\<close>

record date_header =
  col :: nat
  day :: nat

definition hasCol :: "date_header list \<Rightarrow> nat \<Rightarrow> bool" where
  \<comment> \<open>\<open>dateHeaders.some(h => h.col === colNumber)\<close>\<close>
  "hasCol dateHeaders colNumber = list_ex (\<lambda>h. col h = colNumber) dateHeaders"

definition pushDate :: "date_header list \<Rightarrow> nat \<Rightarrow> nat \<Rightarrow> date_header list" where
  \<comment> \<open>\<open>if (!dateHeaders.some(...)) dateHeaders.push({ col, day })\<close>\<close>
  "pushDate dateHeaders colNumber d =
     (if \<not> hasCol dateHeaders colNumber then dateHeaders @ [\<lparr>col = colNumber, day = d\<rparr>]
      else dateHeaders)"

definition dateCell :: "int \<Rightarrow> date_header list \<Rightarrow> nat \<times> cell_value \<Rightarrow> date_header list" where
  \<comment> \<open>the callback of \<open>row.eachCell\<close> in the date loop. After a date-typed cell the source
      goes on with the text [Date:n], which has no slash and does not start with a digit,
      so that neither pattern matches it.\<close>
  "dateCell categoryCol dateHeaders cc =
     (case cc of (colNumber, cell) \<Rightarrow>
        if int colNumber > categoryCol \<and> int colNumber \<le> categoryCol + 35
        then (case cell of
                DateVal d _ \<Rightarrow> pushDate dateHeaders colNumber d
              | _ \<Rightarrow>
                  let v = (case cell of Rich texts \<Rightarrow> concat texts | _ \<Rightarrow> cellText cell)
                  in (case matchMonthDay v of
                        Some d \<Rightarrow> pushDate dateHeaders colNumber d
                      | None \<Rightarrow>
                          (case matchDayOnly v of
                             Some d \<Rightarrow>
                               if d \<ge> 1 \<and> d \<le> 31 then pushDate dateHeaders colNumber d
                               else dateHeaders
                           | None \<Rightarrow> dateHeaders)))
        else dateHeaders)"

fun dateScan :: "worksheet \<Rightarrow> int \<Rightarrow> date_header list \<Rightarrow> nat list \<Rightarrow> date_header list" where
  "dateScan ws categoryCol dateHeaders [] = dateHeaders"
| "dateScan ws categoryCol dateHeaders (searchRow # rest) =
     (let dateHeaders' = foldl (dateCell categoryCol) dateHeaders (eachCell (getRow ws searchRow))
      in if length dateHeaders' \<ge> 10 then dateHeaders'
         else dateScan ws categoryCol dateHeaders' rest)"

definition findDateHeaders :: "worksheet \<Rightarrow> int \<Rightarrow> date_header list" where
  \<comment> \<open>the scan, then \<open>dateHeaders.sort((a, b) => a.col - b.col)\<close>\<close>
  "findDateHeaders ws categoryCol =
     sort_key col (dateScan ws categoryCol [] [1..<Suc (min 10 (rowCount ws))])"

section \<open>parseAttendanceSheet: the walk over the data rows\<close>

text \<open>
  A JavaScript \<open>Map\<close> is an association list in insertion order: \<open>set\<close> on a key that
  is present replaces the value where it stands, on a new key it appends.
\<close>

fun mapSet :: "'k \<Rightarrow> 'v \<Rightarrow> ('k \<times> 'v) list \<Rightarrow> ('k \<times> 'v) list" where
  "mapSet k v [] = [(k, v)]"
| "mapSet k v ((k', v') # m) = (if k' = k then (k, v) # m else (k', v') # mapSet k v m)"

fun mapModify :: "'k \<Rightarrow> ('v \<Rightarrow> 'v) \<Rightarrow> ('k \<times> 'v) list \<Rightarrow> ('k \<times> 'v) list" where
  \<comment> \<open>\<open>const worker = workers.get(key)!\<close> followed by mutations of \<open>worker\<close>\<close>
  "mapModify k f [] = []"
| "mapModify k f ((k', v) # m) = (if k' = k then (k', f v) # m else (k', v) # mapModify k f m)"

definition mapHas :: "('k \<times> 'v) list \<Rightarrow> 'k \<Rightarrow> bool" where
  "mapHas m k \<longleftrightarrow> k \<in> set (map fst m)"

record worker_data =
  w_gender :: gender
  w_name :: jstring
  w_order :: nat
  w_basicHours :: "(nat \<times> rat) list"
  w_overtimeHours :: "(nat \<times> rat) list"
  w_weekendSpecialHours :: "(nat \<times> rat) list"
  w_weeklyHolidayHours :: "(nat \<times> rat) list"

record walk_state =
  workers :: "(jstring \<times> worker_data) list"
  currentGender :: gender
  currentName :: jstring
  workerOrder :: nat

definition walkInit :: walk_state where
  "walkInit = \<lparr>workers = [], currentGender = Nam, currentName = [], workerOrder = 0\<rparr>"

definition numValueOf :: "cell_value \<Rightarrow> rat" where
  \<comment> \<open>\<open>numValue\<close> of an hours cell: 0 unless the value is a number or a non-empty string\<close>
  "numValueOf cellValue =
     (case cellValue of
        Num n _ \<Rightarrow> n
      | Str s parsed \<Rightarrow> (if s = [] then 0 else parsed)
      | _ \<Rightarrow> 0)"

definition canonicalHours :: "rat list" where
  \<comment> \<open>the array \<open>[8, 6, 2.5, 1]\<close> of the basic category\<close>
  "canonicalHours = [8, 6, 5 / 2, 1]"

definition storeHours :: "jstring \<Rightarrow> sheet_row \<Rightarrow> worker_data \<Rightarrow> date_header \<Rightarrow> worker_data" where
  \<comment> \<open>the body of \<open>for (const dateHeader of dateHeaders)\<close>\<close>
  "storeHours categoryValue row worker dateHeader =
     (let numValue = numValueOf (getCell row (col dateHeader))
      in if numValue > 0
         then (if categoryValue = gibon
               then (if numValue \<in> set canonicalHours
                     then worker\<lparr>w_basicHours :=
                            mapSet (day dateHeader) numValue (w_basicHours worker)\<rparr>
                     else worker)
               else if categoryValue = yeonjang
               then worker\<lparr>w_overtimeHours :=
                      mapSet (day dateHeader) numValue (w_overtimeHours worker)\<rparr>
               else if categoryValue = jutuk
               then worker\<lparr>w_weekendSpecialHours :=
                      mapSet (day dateHeader) numValue (w_weekendSpecialHours worker)\<rparr>
               else if categoryValue = juhyu
               then worker\<lparr>w_weeklyHolidayHours :=
                      mapSet (day dateHeader) numValue (w_weeklyHolidayHours worker)\<rparr>
               else worker)
         else worker)"

definition workerKeyOf :: "gender \<Rightarrow> jstring \<Rightarrow> jstring" where
  \<comment> \<open>the template string: gender, hyphen, name\<close>
  "workerKeyOf g n = genderText g @ [45] @ n"

definition newWorker :: "gender \<Rightarrow> jstring \<Rightarrow> nat \<Rightarrow> worker_data" where
  "newWorker g n k =
     \<lparr>w_gender = g, w_name = n, w_order = k, w_basicHours = [], w_overtimeHours = [],
      w_weekendSpecialHours = [], w_weeklyHolidayHours = []\<rparr>"

definition ensureWorker :: "gender \<Rightarrow> jstring \<Rightarrow> walk_state \<Rightarrow> walk_state" where
  \<comment> \<open>\<open>if (!workers.has(workerKey)) workers.set(workerKey, {..., order: workerOrder++, ...})\<close>\<close>
  "ensureWorker g n st =
     (let workerKey = workerKeyOf g n
      in if \<not> mapHas (workers st) workerKey
         then st\<lparr>workers := workers st @ [(workerKey, newWorker g n (workerOrder st))],
                 workerOrder := workerOrder st + 1\<rparr>
         else st)"

definition storeRow :: "jstring \<Rightarrow> sheet_row \<Rightarrow> date_header list \<Rightarrow> worker_data \<Rightarrow> worker_data" where
  \<comment> \<open>the loop \<open>for (const dateHeader of dateHeaders)\<close> on the row's worker\<close>
  "storeRow categoryValue row dateHeaders worker =
     foldl (storeHours categoryValue row) worker dateHeaders"

definition walkRow :: "header_state \<Rightarrow> date_header list \<Rightarrow> walk_state \<Rightarrow> sheet_row \<Rightarrow> walk_state" where
  \<comment> \<open>one iteration of the loop over the data rows\<close>
  "walkRow hdr dateHeaders st row =
     (let genderValue = cellText (getCell row (nat (genderColIndex hdr)));
          nameValue = cellText (getCell row (nat (nameColIndex hdr)));
          categoryValue = cellText (getCell row (nat (categoryColIndex hdr)));
          g = (if genderValue = genderText Nam then Nam
               else if genderValue = genderText Yeo then Yeo
               else currentGender st);
          n = (if nameValue \<noteq> [] then nameValue else currentName st);
          st1 = st\<lparr>currentGender := g, currentName := n\<rparr>
      in if n = [] then st1
         else if categoryValue \<notin> set [gibon, yeonjang, jutuk, juhyu] then st1
         else let st2 = ensureWorker g n st1
              in st2\<lparr>workers :=
                     mapModify (workerKeyOf g n) (storeRow categoryValue row dateHeaders)
                       (workers st2)\<rparr>)"

definition dataRows :: "worksheet \<Rightarrow> header_state \<Rightarrow> sheet_row list" where
  \<comment> \<open>the rows \<open>headerRowIndex + 1 .. rowCount\<close>\<close>
  "dataRows ws hdr = map (getRow ws) [nat (headerRowIndex hdr + 1)..<Suc (rowCount ws)]"

definition walk :: "header_state \<Rightarrow> date_header list \<Rightarrow> sheet_row list \<Rightarrow> walk_state" where
  "walk hdr dateHeaders rows = foldl (walkRow hdr dateHeaders) walkInit rows"

section \<open>parseAttendanceSheet: emitting and sorting the rows\<close>

record temp_row = attendance_row +
  row_workerOrder :: nat

definition setAdd :: "'a list \<Rightarrow> 'a \<Rightarrow> 'a list" where
  \<comment> \<open>\<open>Set.prototype.add\<close>, the set in insertion order\<close>
  "setAdd s x = (if x \<in> set s then s else s @ [x])"

definition allDaysOf :: "worker_data \<Rightarrow> nat list" where
  "allDaysOf worker =
     foldl setAdd []
       (map fst (w_basicHours worker) @ map fst (w_weekendSpecialHours worker)
        @ map fst (w_weeklyHolidayHours worker))"

definition getOrZero :: "(nat \<times> rat) list \<Rightarrow> nat \<Rightarrow> rat" where
  \<comment> \<open>\<open>m.get(day) || 0\<close>\<close>
  "getOrZero m d = (case map_of m d of Some v \<Rightarrow> v | None \<Rightarrow> 0)"

definition workerRows :: "worker_data \<Rightarrow> temp_row list" where
  \<comment> \<open>the \<open>allDays.forEach\<close> of one worker\<close>
  "workerRows worker =
     concat (map (\<lambda>d.
       let basic = getOrZero (w_basicHours worker) d;
           overtime = getOrZero (w_overtimeHours worker) d;
           weekendSpecial = getOrZero (w_weekendSpecialHours worker) d;
           weeklyHoliday = getOrZero (w_weeklyHolidayHours worker) d
       in if basic > 0 \<or> weekendSpecial > 0 \<or> weeklyHoliday > 0
          then [\<lparr>gender = w_gender worker, name = w_name worker, date = d,
                 basicHours = basic, overtimeHours = overtime,
                 weekendSpecialHours = weekendSpecial, weeklyHolidayHours = weeklyHoliday,
                 row_workerOrder = w_order worker\<rparr>]
          else []) (allDaysOf worker))"

definition tempRowsOf :: "(jstring \<times> worker_data) list \<Rightarrow> temp_row list" where
  \<comment> \<open>\<open>workers.forEach\<close>, in insertion order\<close>
  "tempRowsOf ws = concat (map (\<lambda>(k, worker). workerRows worker) ws)"

definition sortTempRows :: "temp_row list \<Rightarrow> temp_row list" where
  \<comment> \<open>\<open>tempRows.sort\<close>: the comparator orders by date, then by worker order; the
      sort is stable\<close>
  "sortTempRows rows = sort_key (\<lambda>t. (date t, row_workerOrder t)) rows"

definition toAttendanceRow :: "temp_row \<Rightarrow> attendance_row" where
  "toAttendanceRow t =
     \<lparr>gender = gender t, name = name t, date = date t, basicHours = basicHours t,
      overtimeHours = overtimeHours t, weekendSpecialHours = weekendSpecialHours t,
      weeklyHolidayHours = weeklyHolidayHours t\<rparr>"

definition sheetHeader :: "worksheet \<Rightarrow> header_state" where
  "sheetHeader ws = headerDefaults (detectHeader ws)"

definition sheetDateHeaders :: "worksheet \<Rightarrow> date_header list" where
  "sheetDateHeaders ws = findDateHeaders ws (categoryColIndex (sheetHeader ws))"

definition sheetWorkers :: "worksheet \<Rightarrow> (jstring \<times> worker_data) list" where
  \<comment> \<open>the \<open>workers\<close> map when the loop over the data rows has finished\<close>
  "sheetWorkers ws =
     workers (walk (sheetHeader ws) (sheetDateHeaders ws) (dataRows ws (sheetHeader ws)))"

definition sheetTempRows :: "worksheet \<Rightarrow> temp_row list" where
  "sheetTempRows ws = sortTempRows (tempRowsOf (sheetWorkers ws))"

definition parseAttendanceSheet :: "worksheet \<Rightarrow> attendance_row list" where
  "parseAttendanceSheet ws = map toAttendanceRow (sheetTempRows ws)"

section \<open>Notions for stating the properties\<close>

subsection \<open>Header detection: the cells visited and the last cell with a label\<close>

type_synonym visited = "(nat \<times> nat \<times> jstring) list"

definition visitedCells :: "worksheet \<Rightarrow> nat list \<Rightarrow> visited" where
  \<comment> \<open>row, column and trimmed text of the cells of the given rows, in reading order\<close>
  "visitedCells ws rowNums =
     concat (map (\<lambda>r. map (\<lambda>(c, v). (r, c, cellText v)) (eachCell (getRow ws r))) rowNums)"

definition lastLabelled :: "jstring list \<Rightarrow> visited \<Rightarrow> (nat \<times> nat) option" where
  \<comment> \<open>row and column of the last visited cell whose text is one of the labels\<close>
  "lastLabelled labels vs =
     (case rev (filter (\<lambda>(r, c, t). t \<in> set labels) vs) of
        [] \<Rightarrow> None
      | (r, c, t) # _ \<Rightarrow> Some (r, c))"

definition allLabelsSeen :: "visited \<Rightarrow> bool" where
  "allLabelsSeen vs \<longleftrightarrow>
     lastLabelled [seongbyeol] vs \<noteq> None \<and> lastLabelled [seongmyeong, ireum] vs \<noteq> None
     \<and> lastLabelled [gubun] vs \<noteq> None"

fun scannedRows :: "worksheet \<Rightarrow> visited \<Rightarrow> nat list \<Rightarrow> nat list" where
  \<comment> \<open>the rows read: every row up to and including the first one at whose end the three
      kinds of label have all been seen\<close>
  "scannedRows ws seen [] = []"
| "scannedRows ws seen (r # rest) =
     r # (if allLabelsSeen (seen @ visitedCells ws [r]) then []
          else scannedRows ws (seen @ visitedCells ws [r]) rest)"

definition scannedCells :: "worksheet \<Rightarrow> visited" where
  "scannedCells ws = visitedCells ws (scannedRows ws [] [1..<Suc (min 15 (rowCount ws))])"

definition summary :: "header_state \<Rightarrow> visited \<Rightarrow> header_state" where
  \<comment> \<open>a header state overwritten by the last labelled cells of a run of visited cells\<close>
  "summary st vs =
     \<lparr>genderColIndex =
        (case lastLabelled [seongbyeol] vs of None \<Rightarrow> genderColIndex st | Some (r, c) \<Rightarrow> int c),
      nameColIndex =
        (case lastLabelled [seongmyeong, ireum] vs of
           None \<Rightarrow> nameColIndex st | Some (r, c) \<Rightarrow> int c),
      categoryColIndex =
        (case lastLabelled [gubun] vs of None \<Rightarrow> categoryColIndex st | Some (r, c) \<Rightarrow> int c),
      headerRowIndex =
        (case lastLabelled [seongbyeol] vs of None \<Rightarrow> headerRowIndex st | Some (r, c) \<Rightarrow> int r)\<rparr>"

subsection \<open>Forward fill and the discovery order of the workers\<close>

definition genderValueOf :: "header_state \<Rightarrow> sheet_row \<Rightarrow> jstring" where
  \<comment> \<open>the trimmed text of a row's gender cell\<close>
  "genderValueOf hdr row = cellText (getCell row (nat (genderColIndex hdr)))"

definition nameValueOf :: "header_state \<Rightarrow> sheet_row \<Rightarrow> jstring" where
  "nameValueOf hdr row = cellText (getCell row (nat (nameColIndex hdr)))"

definition categoryValueOf :: "header_state \<Rightarrow> sheet_row \<Rightarrow> jstring" where
  "categoryValueOf hdr row = cellText (getCell row (nat (categoryColIndex hdr)))"

definition filledGender :: "header_state \<Rightarrow> gender \<Rightarrow> sheet_row \<Rightarrow> gender" where
  \<comment> \<open>the current gender after a row, given the one before it\<close>
  "filledGender hdr g row =
     (if genderValueOf hdr row = genderText Nam then Nam
      else if genderValueOf hdr row = genderText Yeo then Yeo
      else g)"

definition filledName :: "header_state \<Rightarrow> jstring \<Rightarrow> sheet_row \<Rightarrow> jstring" where
  \<comment> \<open>the current name after a row, given the one before it\<close>
  "filledName hdr n row = (if nameValueOf hdr row \<noteq> [] then nameValueOf hdr row else n)"

definition recognized :: "header_state \<Rightarrow> jstring \<Rightarrow> sheet_row \<Rightarrow> bool" where
  \<comment> \<open>the row has a current name and one of the four category codes\<close>
  "recognized hdr n row \<longleftrightarrow>
     filledName hdr n row \<noteq> [] \<and> categoryValueOf hdr row \<in> set [gibon, yeonjang, jutuk, juhyu]"

fun recognizedKeys :: "header_state \<Rightarrow> gender \<Rightarrow> jstring \<Rightarrow> sheet_row list \<Rightarrow> (gender \<times> jstring) list" where
  \<comment> \<open>the (gender, name) pairs of the recognized category rows, in sheet order\<close>
  "recognizedKeys hdr g n [] = []"
| "recognizedKeys hdr g n (row # rows) =
     (if recognized hdr n row then [(filledGender hdr g row, filledName hdr n row)] else [])
     @ recognizedKeys hdr (filledGender hdr g row) (filledName hdr n row) rows"

fun firsts :: "'a list \<Rightarrow> 'a list" where
  \<comment> \<open>a list without its repetitions, every element at its first occurrence\<close>
  "firsts [] = []"
| "firsts (x # xs) = x # filter (\<lambda>y. y \<noteq> x) (firsts xs)"

definition discoveryOrder :: "worksheet \<Rightarrow> (gender \<times> jstring) list" where
  \<comment> \<open>the workers in the order in which each first produced a recognized category row\<close>
  "discoveryOrder ws =
     firsts (recognizedKeys (sheetHeader ws) Nam [] (dataRows ws (sheetHeader ws)))"

definition discoveryIndex :: "worksheet \<Rightarrow> attendance_row \<Rightarrow> nat" where
  \<comment> \<open>the position of a row's worker in the discovery order\<close>
  "discoveryIndex ws r =
     length (takeWhile (\<lambda>p. p \<noteq> (gender r, name r)) (discoveryOrder ws))"

subsection \<open>Invariants of the walk\<close>

definition canonicalBasic :: "worker_data \<Rightarrow> bool" where
  "canonicalBasic w \<longleftrightarrow> (\<forall>(d, v) \<in> set (w_basicHours w). v \<in> set canonicalHours)"

definition expected :: "(gender \<times> jstring) list \<Rightarrow> (jstring \<times> (gender \<times> jstring) \<times> nat) list" where
  \<comment> \<open>key, identity and order index of the workers discovered in the given order\<close>
  "expected ps = map (\<lambda>(i, p). (workerKeyOf (fst p) (snd p), p, i)) (enumerate 0 ps)"

definition proj :: "jstring \<times> worker_data \<Rightarrow> jstring \<times> (gender \<times> jstring) \<times> nat" where
  "proj kw = (fst kw, (w_gender (snd kw), w_name (snd kw)), w_order (snd kw))"

definition walkInv :: "walk_state \<Rightarrow> (gender \<times> jstring) list \<Rightarrow> bool" where
  "walkInv st ps \<longleftrightarrow> map proj (workers st) = expected ps \<and> workerOrder st = length ps"

definition rowKey :: "temp_row \<Rightarrow> nat \<times> nat" where
  \<comment> \<open>what the comparator of the sort compares\<close>
  "rowKey t = (date t, row_workerOrder t)"

subsection \<open>Concrete sheets\<close>

definition c7_sheet :: worksheet where
  \<comment> \<open>one header row with the gender label in columns 1 and 4\<close>
  "c7_sheet = [[Str seongbyeol 0, Str seongmyeong 0, Str gubun 0, Str seongbyeol 0]]"

definition c8_sheet :: worksheet where
  \<comment> \<open>a header row whose first date column holds the text 3/45\<close>
  "c8_sheet = [[Str seongbyeol 0, Str seongmyeong 0, Str gubun 0, Str [51, 47, 52, 53] 3]]"

definition demo_sheet :: worksheet where
  \<comment> \<open>header row with the day columns 1 and 5; worker B (male) with basic 8 on both days
      and overtime 2 on day 1; worker A (female) with basic 4 on day 1, 6 on day 5, and
      overtime 3 on day 1\<close>
  "demo_sheet =
     [[Str seongbyeol 0, Str seongmyeong 0, Str gubun 0, Str [49] 1, Str [53] 5],
      [Str [45224] 0, Str [66] 0, Str gibon 0, Num 8 [56], Num 8 [56]],
      [Null, Null, Str yeonjang 0, Num 2 [50]],
      [Str [50668] 0, Str [65] 0, Str gibon 0, Num 4 [52], Num 6 [54]],
      [Null, Null, Str yeonjang 0, Num 3 [51]]]"

definition c9_header :: header_state where
  "c9_header = \<lparr>genderColIndex = 1, nameColIndex = 2, categoryColIndex = 3, headerRowIndex = 1\<rparr>"

definition c9_sheet :: worksheet where
  \<comment> \<open>worker A with the gender cell U+C5EC, then worker B whose gender cell holds the
      two syllables U+B0A8 U+C790 (namja, man)\<close>
  "c9_sheet =
     [[Str seongbyeol 0, Str seongmyeong 0, Str gubun 0, Str [49] 1],
      [Str [50668] 0, Str [65] 0, Str gibon 0, Num 8 [56]],
      [Str [45224, 51088] 0, Str [66] 0, Str gibon 0, Num 8 [56]]]"

subsection \<open>The surcharge formula\<close>


definition spec_round :: "number \<Rightarrow> number" where
  \<comment> \<open>round half up to the nearest integer: a fraction below one half is dropped, any
      other is made up to the next integer\<close>
  "spec_round n =
     (case n of
        Fin p \<Rightarrow> Fin (if p - of_int \<lfloor>p\<rfloor> < 1 / 2 then of_int \<lfloor>p\<rfloor> else of_int \<lfloor>p\<rfloor> + 1)
      | _ \<Rightarrow> n)"

subsection \<open>Binary64 values of decimal hour figures\<close>

definition double_1_7 :: rat where
  \<comment> \<open>the binary64 value of the literal 1.7\<close>
  "double_1_7 = 7656119366529843 / 4503599627370496"

definition double_0_3 :: rat where
  \<comment> \<open>the binary64 value of the literal 0.3\<close>
  "double_0_3 = 5404319552844595 / 18014398509481984"

definition double_0_7 :: rat where
  \<comment> \<open>the binary64 value of the literal 0.7\<close>
  "double_0_7 = 3152519739159347 / 4503599627370496"

definition double_0_145 :: rat where
  \<comment> \<open>the binary64 value of the literal 0.145\<close>
  "double_0_145 = 5224175567749775 / 36028797018963968"

definition double_0_15 :: rat where
  \<comment> \<open>the binary64 value of the literal 0.15\<close>
  "double_0_15 = 5404319552844595 / 36028797018963968"

section \<open>Rate table lookups\<close>

lemma getWorkUnits_noncanonical:
  "h \<noteq> 8 \<Longrightarrow> h \<noteq> 6 \<Longrightarrow> h \<noteq> 5 / 2 \<Longrightarrow> h \<noteq> 1 \<Longrightarrow> getWorkUnits g h = 0"
  by (simp add: getWorkUnits_def maleRates_def femaleRates_def)

lemma getUnitPrice_noncanonical:
  "h \<noteq> 8 \<Longrightarrow> h \<noteq> 6 \<Longrightarrow> h \<noteq> 5 / 2 \<Longrightarrow> h \<noteq> 1 \<Longrightarrow> getUnitPrice g h = 0"
  by (simp add: getUnitPrice_def maleRates_def femaleRates_def)

text \<open>
  C1. For each of the four canonical hour values and each gender, \<open>getWorkUnits\<close> and
  \<open>getUnitPrice\<close> return the entry of that gender's table; for every other hour value
  both return 0.
\<close>

theorem C1_rate_lookup:
  "getWorkUnits Nam 8 = 1 \<and> getUnitPrice Nam 8 = 117480 \<and>
   getWorkUnits Nam 6 = 3 / 4 \<and> getUnitPrice Nam 6 = 88110 \<and>
   getWorkUnits Nam (5 / 2) = 5 / 16 \<and> getUnitPrice Nam (5 / 2) = 36713 \<and>
   getWorkUnits Nam 1 = 1 / 8 \<and> getUnitPrice Nam 1 = 14685 \<and>
   getWorkUnits Yeo 8 = 1 \<and> getUnitPrice Yeo 8 = 108680 \<and>
   getWorkUnits Yeo 6 = 3 / 4 \<and> getUnitPrice Yeo 6 = 81510 \<and>
   getWorkUnits Yeo (5 / 2) = 5 / 16 \<and> getUnitPrice Yeo (5 / 2) = 33963 \<and>
   getWorkUnits Yeo 1 = 1 / 8 \<and> getUnitPrice Yeo 1 = 13585 \<and>
   (\<forall>g h. h \<notin> {8, 6, 5 / 2, 1} \<longrightarrow> getWorkUnits g h = 0 \<and> getUnitPrice g h = 0)"
  by (simp add: getWorkUnits_def getUnitPrice_def maleRates_def femaleRates_def)

theorem C1_rate_lookup_witness:
  "(4::rat) \<notin> {8, 6, 5 / 2, 1} \<and> getWorkUnits Yeo 4 = 0 \<and> getUnitPrice Yeo 4 = 0"
  using C1_rate_lookup by simp

section \<open>Work units of the surcharges\<close>

text \<open>
  C10. Both work-unit functions are the linear function \<open>hours / 8\<close>: the four
  special-case branches return what the fallback would.
\<close>

theorem C10_units_linear:
  "getWeekendSpecialWorkUnits hours = hours / 8 \<and> getWeeklyHolidayWorkUnits hours = hours / 8"
  by (simp add: getWeekendSpecialWorkUnits_def getWeeklyHolidayWorkUnits_def)

section \<open>Rounding to binary64\<close>

lemma floor_rat_numeral: "\<lfloor>(numeral a :: rat) / numeral b\<rfloor> = numeral a div numeral b"
  using floor_divide_of_int_eq [of "numeral a" "numeral b", where ?'a = rat] by simp

lemma pow2_powi: "pow2 e = 2 powi e"
  by (simp add: pow2_def power_int_def field_simps)

lemma pow2_pos [simp]: "0 < pow2 e"
  by (simp add: pow2_def)

lemma pow2_add: "pow2 (a + b) = pow2 a * pow2 b"
  by (simp add: pow2_powi power_int_add)

lemma pow2_mono: "a \<le> b \<Longrightarrow> pow2 a \<le> pow2 b"
  by (simp add: pow2_powi power_int_increasing)

text \<open>The exponent computed from the bit lengths is the binade of a positive rational.\<close>

lemma binade_bounds:
  assumes "0 < a"
  shows "pow2 (binade a) \<le> a \<and> a < pow2 (binade a + 1)"
proof -
  obtain p d where pd: "quotient_of a = (p, d)" by (cases "quotient_of a")
  then have d: "0 < d" and a: "a = of_int p / of_int d"
    using quotient_of_denom_pos quotient_of_div by blast+
  have p: "0 < p" using assms d a by (simp add: zero_less_divide_iff)
  let ?bp = "bitlen p" and ?bd = "bitlen d"
  from bitlen_bounds [OF p] have p1: "(2::int) ^ nat (?bp - 1) \<le> p" and p2: "p < 2 ^ nat ?bp"
    by simp_all
  from bitlen_bounds [OF d] have d1: "(2::int) ^ nat (?bd - 1) \<le> d" and d2: "d < 2 ^ nat ?bd"
    by simp_all
  have bp: "1 \<le> ?bp" and bd: "1 \<le> ?bd"
    using p d bitlen_eq_zero_iff [of p] bitlen_eq_zero_iff [of d]
      bitlen_nonneg [of p] bitlen_nonneg [of d]
    by linarith+
  have P1: "pow2 (?bp - 1) \<le> of_int p"
  proof -
    have "pow2 (?bp - 1) = of_int (2 ^ nat (?bp - 1))" using bp by (simp add: pow2_def)
    also have "\<dots> \<le> of_int p" using p1 by (simp only: of_int_le_iff)
    finally show ?thesis .
  qed
  have P2: "of_int p < pow2 ?bp"
  proof -
    have "(of_int p :: rat) < of_int (2 ^ nat ?bp)" using p2 by (simp only: of_int_less_iff)
    also have "\<dots> = pow2 ?bp" using bp by (simp add: pow2_def)
    finally show ?thesis .
  qed
  have D1: "pow2 (?bd - 1) \<le> of_int d"
  proof -
    have "pow2 (?bd - 1) = of_int (2 ^ nat (?bd - 1))" using bd by (simp add: pow2_def)
    also have "\<dots> \<le> of_int d" using d1 by (simp only: of_int_le_iff)
    finally show ?thesis .
  qed
  have D2: "of_int d < pow2 ?bd"
  proof -
    have "(of_int d :: rat) < of_int (2 ^ nat ?bd)" using d2 by (simp only: of_int_less_iff)
    also have "\<dots> = pow2 ?bd" using bd by (simp add: pow2_def)
    finally show ?thesis .
  qed
  let ?b = "?bp - ?bd"
  have dpos: "(0::rat) < of_int d" using d by simp
  have upper: "a < pow2 (?b + 1)"
  proof -
    have "pow2 (?b + 1) * pow2 (?bd - 1) = pow2 ?bp"
      by (simp add: pow2_add [symmetric])
    then have "of_int p < pow2 (?b + 1) * pow2 (?bd - 1)" using P2 by simp
    also have "\<dots> \<le> pow2 (?b + 1) * of_int d" using D1 by (simp add: mult_left_mono less_imp_le)
    finally show ?thesis using dpos by (simp add: a pos_divide_less_eq)
  qed
  have lower: "pow2 (?b - 1) < a"
  proof -
    have "pow2 (?b - 1) * pow2 ?bd = pow2 (?bp - 1)"
      by (simp add: pow2_add [symmetric])
    moreover have "pow2 (?b - 1) * of_int d < pow2 (?b - 1) * pow2 ?bd"
      using D2 by (simp add: mult_strict_left_mono)
    ultimately have "pow2 (?b - 1) * of_int d < of_int p" using P1 by simp
    then show ?thesis using dpos by (simp add: a pos_less_divide_eq)
  qed
  show ?thesis
  proof (cases "pow2 ?b \<le> a")
    case True
    then have "binade a = ?b" by (simp add: binade_def pd)
    then show ?thesis using True upper by simp
  next
    case False
    then have "binade a = ?b - 1" by (simp add: binade_def pd)
    then show ?thesis using False lower by simp
  qed
qed

lemma binade_unique:
  assumes "0 < a" "pow2 e \<le> a" "a < pow2 (e + 1)"
  shows "binade a = e"
proof (rule ccontr)
  assume ne: "binade a \<noteq> e"
  from binade_bounds [OF assms(1)]
  have b1: "pow2 (binade a) \<le> a" and b2: "a < pow2 (binade a + 1)"
    by simp_all
  show False
  proof (cases "binade a < e")
    case True
    then have "pow2 (binade a + 1) \<le> pow2 e" by (intro pow2_mono) simp
    with b2 assms(2) show False by simp
  next
    case False
    with ne have "e + 1 \<le> binade a" by simp
    then have "pow2 (e + 1) \<le> pow2 (binade a)" by (rule pow2_mono)
    with b1 assms(3) show False by simp
  qed
qed

text \<open>Rounding a positive number whose binade is known and in the normal range.\<close>

lemma roundDouble_normal:
  assumes "0 < q" "pow2 e \<le> q" "q < pow2 (e + 1)" "- 1022 \<le> e"
  shows "roundDouble q =
     (let r = of_int (roundHalfEven (q / pow2 (e - 52))) * pow2 (e - 52)
      in if pow2 1024 \<le> r then PosInf else Fin r)"
proof -
  have "binade \<bar>q\<bar> = e" using assms by (intro binade_unique) simp_all
  then show ?thesis using assms by (simp add: roundDouble_def Let_def max_def)
qed

lemmas round_defs = pow2_def roundHalfEven_def Let_def floor_rat_numeral

text \<open>
  The products of the rate tables are binary64 values: the product of a work-unit
  figure and its price is not rounded.
\<close>

lemma roundDouble_table:
  "roundDouble 117480 = Fin 117480" "roundDouble (3 / 4 * 88110) = Fin (3 / 4 * 88110)"
  "roundDouble (5 / 16 * 36713) = Fin (5 / 16 * 36713)"
  "roundDouble (1 / 8 * 14685) = Fin (1 / 8 * 14685)"
  "roundDouble 108680 = Fin 108680" "roundDouble (3 / 4 * 81510) = Fin (3 / 4 * 81510)"
  "roundDouble (5 / 16 * 33963) = Fin (5 / 16 * 33963)"
  "roundDouble (1 / 8 * 13585) = Fin (1 / 8 * 13585)"
proof -
  show "roundDouble 117480 = Fin 117480"
    by (subst roundDouble_normal [where e = 16]) (simp_all add: round_defs)
  show "roundDouble (3 / 4 * 88110) = Fin (3 / 4 * 88110)"
    by (subst roundDouble_normal [where e = 16]) (simp_all add: round_defs)
  show "roundDouble (5 / 16 * 36713) = Fin (5 / 16 * 36713)"
    by (subst roundDouble_normal [where e = 13]) (simp_all add: round_defs)
  show "roundDouble (1 / 8 * 14685) = Fin (1 / 8 * 14685)"
    by (subst roundDouble_normal [where e = 10]) (simp_all add: round_defs)
  show "roundDouble 108680 = Fin 108680"
    by (subst roundDouble_normal [where e = 16]) (simp_all add: round_defs)
  show "roundDouble (3 / 4 * 81510) = Fin (3 / 4 * 81510)"
    by (subst roundDouble_normal [where e = 15]) (simp_all add: round_defs)
  show "roundDouble (5 / 16 * 33963) = Fin (5 / 16 * 33963)"
    by (subst roundDouble_normal [where e = 13]) (simp_all add: round_defs)
  show "roundDouble (1 / 8 * 13585) = Fin (1 / 8 * 13585)"
    by (subst roundDouble_normal [where e = 10]) (simp_all add: round_defs)
qed

lemma fmul_rates:
  "fmul (getWorkUnits g h) (getUnitPrice g h) = Fin (getWorkUnits g h * getUnitPrice g h)"
proof (cases "h \<in> {8, 6, 5 / 2, 1}")
  case True
  then show ?thesis
    using roundDouble_table
    by (cases g)
       (auto simp: fmul_def getWorkUnits_def getUnitPrice_def maleRates_def femaleRates_def)
next
  case False
  then have "getWorkUnits g h = 0" "getUnitPrice g h = 0"
    by (simp_all add: getWorkUnits_noncanonical getUnitPrice_noncanonical)
  then show ?thesis by (simp add: fmul_def roundDouble_def)
qed

text \<open>
  \<open>calculateTotal\<close> on arguments outside the rate tables: a product that is rounded
  below one half, and a product that overflows.
\<close>

lemma calculateTotal_values:
  "calculateTotal double_0_145 100 = Fin 14" "calculateTotal (2 ^ 600) (2 ^ 600) = PosInf"
proof -
  have "roundDouble (double_0_145 * 100) = Fin (8162774324609023 / 562949953421312)"
    by (subst roundDouble_normal [where e = 3]) (simp_all add: double_0_145_def round_defs)
  then show "calculateTotal double_0_145 100 = Fin 14"
    by (simp add: calculateTotal_def fmul_def Math_round_def floor_rat_numeral)
  have "roundDouble (2 ^ 600 * 2 ^ 600) = PosInf"
    by (subst roundDouble_normal [where e = 1200]) (simp_all add: round_defs)
  then show "calculateTotal (2 ^ 600) (2 ^ 600) = PosInf"
    by (simp add: calculateTotal_def fmul_def Math_round_def)
qed

text \<open>\<open>Math.round\<close> rounds half up.\<close>

lemma Math_round_spec: "Math_round n = spec_round n"
proof (cases n)
  case (Fin p)
  let ?f = "\<lfloor>p\<rfloor>"
  have f: "of_int ?f \<le> p" "p < of_int ?f + 1" by linarith+
  have "\<lfloor>p + 1 / 2\<rfloor> = (if p - of_int ?f < 1 / 2 then ?f else ?f + 1)"
  proof (cases "p - of_int ?f < 1 / 2")
    case True
    have "of_int ?f \<le> p + 1 / 2" using f by linarith
    moreover have "p + 1 / 2 < of_int ?f + 1" using True by linarith
    ultimately have "\<lfloor>p + 1 / 2\<rfloor> = ?f" by (rule floor_unique)
    then show ?thesis using True by simp
  next
    case False
    have "of_int (?f + 1) \<le> p + 1 / 2" using False by simp
    moreover have "p + 1 / 2 < of_int (?f + 1) + 1" using f by simp
    ultimately have "\<lfloor>p + 1 / 2\<rfloor> = ?f + 1" by (rule floor_unique)
    then show ?thesis using False by simp
  qed
  then show ?thesis by (simp add: Fin Math_round_def spec_round_def)
qed (simp_all add: Math_round_def spec_round_def)

section \<open>Surcharge totals\<close>

text \<open>
  The model's totals at hour figures whose product with the base price is not a
  binary64 value: these are the results of the double-precision product, which at 1.7,
  0.3 and 0.15 hours are one more than rounding the exact product would give.
\<close>

lemma surcharge_values:
  "getWeekendSpecialUnitPrice double_1_7 = Fin 36508"
  "getWeekendSpecialUnitPrice double_0_3 = Fin 6443"
  "getWeekendSpecialUnitPrice double_0_7 = Fin 15032"
  "getWeeklyHolidayUnitPrice double_0_15 = Fin 1868"
proof -
  have "roundDouble (171800 * (double_1_7 / 8)) = Fin (73015 / 2)"
    by (subst roundDouble_normal [where e = 15]) (simp_all add: double_1_7_def round_defs)
  then show "getWeekendSpecialUnitPrice double_1_7 = Fin 36508"
    by (simp add: getWeekendSpecialUnitPrice_def getWeekendSpecialWorkUnits_def fmul_def
        Math_round_def double_1_7_def floor_rat_numeral)
  have "roundDouble (171800 * (double_0_3 / 8)) = Fin (12885 / 2)"
    by (subst roundDouble_normal [where e = 12]) (simp_all add: double_0_3_def round_defs)
  then show "getWeekendSpecialUnitPrice double_0_3 = Fin 6443"
    by (simp add: getWeekendSpecialUnitPrice_def getWeekendSpecialWorkUnits_def fmul_def
        Math_round_def double_0_3_def floor_rat_numeral)
  have "roundDouble (171800 * (double_0_7 / 8)) = Fin (8264204272271359 / 549755813888)"
    by (subst roundDouble_normal [where e = 13]) (simp_all add: double_0_7_def round_defs)
  then show "getWeekendSpecialUnitPrice double_0_7 = Fin 15032"
    by (simp add: getWeekendSpecialUnitPrice_def getWeekendSpecialWorkUnits_def fmul_def
        Math_round_def double_0_7_def floor_rat_numeral)
  have "roundDouble (99600 * (double_0_15 / 8)) = Fin (3735 / 2)"
    by (subst roundDouble_normal [where e = 10]) (simp_all add: double_0_15_def round_defs)
  then show "getWeeklyHolidayUnitPrice double_0_15 = Fin 1868"
    by (simp add: getWeeklyHolidayUnitPrice_def getWeeklyHolidayWorkUnits_def fmul_def
        Math_round_def double_0_15_def floor_rat_numeral)
qed

text \<open>A product beyond the binary64 range is infinite, and so is the total.\<close>

lemma surcharge_overflow: "getWeekendSpecialUnitPrice (2 ^ 1020) = PosInf"
proof -
  have "roundDouble (171800 * (2 ^ 1020 / 8)) = PosInf"
    by (subst roundDouble_normal [where e = 1034]) (simp_all add: round_defs)
  then show ?thesis
    by (simp add: getWeekendSpecialUnitPrice_def getWeekendSpecialWorkUnits_def fmul_def
        Math_round_def)
qed




section \<open>Grand total of a statement row\<close>

lemma getWorkUnits_nonpositive: "h \<le> 0 \<Longrightarrow> getWorkUnits g h = 0"
  by (rule getWorkUnits_noncanonical) auto

lemma getUnitPrice_nonpositive: "h \<le> 0 \<Longrightarrow> getUnitPrice g h = 0"
  by (rule getUnitPrice_noncanonical) auto

text \<open>
  The basic total is the rounded product of the two figures looked up; the guard on
  positive basic hours changes nothing, the lookup being 0 where the guard fails.
\<close>

lemma basicTotal_value:
  "basicTotal row =
     spec_round (Fin (getWorkUnits (gender row) (basicHours row)
                      * getUnitPrice (gender row) (basicHours row)))"
proof (cases "basicHours row > 0")
  case True
  then show ?thesis
    by (simp add: basicTotal_def calculateTotal_def fmul_rates Math_round_spec)
next
  case False
  then have "getWorkUnits (gender row) (basicHours row) = 0"
    "getUnitPrice (gender row) (basicHours row) = 0"
    by (simp_all add: getWorkUnits_nonpositive getUnitPrice_nonpositive)
  then show ?thesis
    using False fmul_rates [of "gender row" "basicHours row"]
    by (simp add: basicTotal_def calculateTotal_def Math_round_spec)
qed

lemma col_total_outputRow:
  "col_total (outputRow month index row) =
     fadd (fadd (basicTotal row) (weekendSpecialTotal row)) (weeklyHolidayTotal row)"
  by (simp add: outputRow_def Let_def)

lemma col_overtime_outputRow:
  "col_overtime (outputRow month index row) =
     (if 0 < overtimeHours row then Some (overtimeHours row) else None)"
  by (simp add: outputRow_def Let_def orBlank_def)

lemma outputRow_overtime:
  "outputRow month index (row\<lparr>overtimeHours := ot\<rparr>) =
     (outputRow month index row)\<lparr>col_overtime := (if 0 < ot then Some ot else None)\<rparr>"
  by (simp add: outputRow_def Let_def orBlank_def basicTotal_def weekendSpecialTotal_def
      weeklyHolidayTotal_def)

lemma createOutputRows_nth:
  "i < length data \<Longrightarrow> createOutputRows month data ! i = outputRow month i (data ! i)"
  by (simp add: createOutputRows_def nth_enumerate_eq)

text \<open>
  C3. In every row written by the conversion the last column is the sum, as
  JavaScript adds numbers, of the basic total (the product of the work units and the
  unit price looked up in the rate table, rounded half up), the weekend-special total
  and the weekly-holiday total. The row's overtime hours are written to the overtime
  column when positive, which is otherwise blank, and nowhere else: replacing them by
  any other value changes the overtime column alone, and so leaves the total as it is.
\<close>

theorem C3_grand_total:
  "i < length data \<longrightarrow>
     col_total (createOutputRows month data ! i) =
       fadd (fadd (spec_round (Fin (getWorkUnits (gender (data ! i)) (basicHours (data ! i))
                                    * getUnitPrice (gender (data ! i)) (basicHours (data ! i)))))
                  (weekendSpecialTotal (data ! i)))
            (weeklyHolidayTotal (data ! i))
     \<and> col_overtime (createOutputRows month data ! i) =
         (if 0 < overtimeHours (data ! i) then Some (overtimeHours (data ! i)) else None)
     \<and> createOutputRows month (data[i := (data ! i)\<lparr>overtimeHours := ot\<rparr>]) ! i =
         (createOutputRows month data ! i)\<lparr>col_overtime := (if 0 < ot then Some ot else None)\<rparr>
     \<and> col_total (createOutputRows month (data[i := (data ! i)\<lparr>overtimeHours := ot\<rparr>]) ! i) =
         col_total (createOutputRows month data ! i)"
  by (simp add: createOutputRows_nth col_total_outputRow col_overtime_outputRow
      outputRow_overtime basicTotal_value)

theorem C3_grand_total_witness:
  "(0::nat) < length [\<lparr>gender = Nam, name = [], date = 1, basicHours = 8,
        overtimeHours = 2, weekendSpecialHours = double_1_7, weeklyHolidayHours = 0\<rparr>] \<and>
   col_total (createOutputRows [] [\<lparr>gender = Nam, name = [], date = 1, basicHours = 8,
        overtimeHours = 2, weekendSpecialHours = double_1_7, weeklyHolidayHours = 0\<rparr>] ! 0)
     = Fin 153988 \<and>
   col_overtime (createOutputRows [] [\<lparr>gender = Nam, name = [], date = 1, basicHours = 8,
        overtimeHours = 2, weekendSpecialHours = double_1_7, weeklyHolidayHours = 0\<rparr>] ! 0)
     = Some 2 \<and>
   basicTotal \<lparr>gender = Yeo, name = [], date = 1, basicHours = 6,
        overtimeHours = 0, weekendSpecialHours = 0, weeklyHolidayHours = 0\<rparr> = Fin 61133"
proof -
  have r: "roundDouble 153988 = Fin 153988"
    by (subst roundDouble_normal [where e = 17]) (simp_all add: round_defs)
  have pos: "0 < double_1_7" by (simp add: double_1_7_def)
  have b: "basicTotal \<lparr>gender = Yeo, name = [], date = 1, basicHours = 6,
        overtimeHours = 0, weekendSpecialHours = 0, weeklyHolidayHours = 0\<rparr> = Fin 61133"
    by (simp add: basicTotal_value getWorkUnits_def getUnitPrice_def femaleRates_def
        spec_round_def floor_rat_numeral)
  show ?thesis
    using C3_grand_total [of 0 "[\<lparr>gender = Nam, name = [], date = 1, basicHours = 8,
        overtimeHours = 2, weekendSpecialHours = double_1_7, weeklyHolidayHours = 0\<rparr>]" "[]" 0]
      pos b
    by (simp add: getWorkUnits_def getUnitPrice_def maleRates_def spec_round_def
        weekendSpecialTotal_def weeklyHolidayTotal_def surcharge_values r)
qed

section \<open>Evaluating the parser on a concrete sheet\<close>

lemmas label_defs = seongbyeol_def seongmyeong_def ireum_def gubun_def gibon_def yeonjang_def
  jutuk_def juhyu_def genderText_def

lemmas text_defs = cellText_def trim_def stringOrEmpty_def isWhiteSpace_def label_defs

lemmas sheet_defs = rowCount_def getRow_def getCell_def eachCell_def enumerate_eq_zip upt_rec

lemmas header_defs = sheetHeader_def headerDefaults_def detectHeader_def headerCell_def
  headerInit_def headerFound_def

lemmas date_defs = sheetDateHeaders_def findDateHeaders_def dateCell_def pushDate_def hasCol_def
  matchDayOnly_def isDigit_def digitVal_def

lemmas walk_defs = sheetWorkers_def walk_def dataRows_def walkRow_def ensureWorker_def
  storeRow_def storeHours_def numValueOf_def mapHas_def workerKeyOf_def newWorker_def
  walkInit_def canonicalHours_def

lemmas rows_defs = parseAttendanceSheet_def sheetTempRows_def sortTempRows_def tempRowsOf_def
  workerRows_def allDaysOf_def setAdd_def getOrZero_def toAttendanceRow_def

section \<open>Header detection\<close>

lemma lastLabelled_Nil [simp]: "lastLabelled labels [] = None"
  by (simp add: lastLabelled_def)

lemma lastLabelled_snoc:
  "lastLabelled labels (vs @ [(r, c, t)]) =
     (if t \<in> set labels then Some (r, c) else lastLabelled labels vs)"
  by (simp add: lastLabelled_def split: list.splits)

lemma summary_Nil [simp]: "summary st [] = st"
  by (simp add: summary_def)

lemma labels_distinct:
  "seongbyeol \<noteq> seongmyeong" "seongbyeol \<noteq> ireum" "seongbyeol \<noteq> gubun"
  "seongmyeong \<noteq> gubun" "ireum \<noteq> gubun"
  by (simp_all add: seongbyeol_def seongmyeong_def ireum_def gubun_def)

lemma summary_snoc:
  "summary st (vs @ [(r, c, cellText v)]) = headerCell r (summary st vs) (c, v)"
  by (simp add: summary_def lastLabelled_snoc headerCell_def Let_def labels_distinct)

lemma foldl_headerCell:
  "foldl (headerCell r) (summary st vs) cs
   = summary st (vs @ map (\<lambda>(c, v). (r, c, cellText v)) cs)"
proof (induction cs arbitrary: vs)
  case Nil
  then show ?case by simp
next
  case (Cons a cs)
  obtain c v where a: "a = (c, v)" by (cases a)
  show ?case using Cons.IH [of "vs @ [(r, c, cellText v)]"] by (simp add: a summary_snoc)
qed

lemma visitedCells_Cons:
  "visitedCells ws (r # rs) = visitedCells ws [r] @ visitedCells ws rs"
  by (simp add: visitedCells_def)

lemma eachCell_col_pos: "(c, v) \<in> set (eachCell row) \<Longrightarrow> 0 < c"
  by (auto simp: eachCell_def in_set_enumerate_eq)

lemma lastLabelled_pos:
  "\<forall>(r, c, t) \<in> set vs. 0 < c \<Longrightarrow> lastLabelled labels vs = Some (r, c) \<Longrightarrow> 0 < c"
  by (induction vs rule: rev_induct) (auto simp: lastLabelled_snoc split: if_splits)

lemma visitedCells_pos: "(r, c, t) \<in> set (visitedCells ws rs) \<Longrightarrow> 0 < c"
  by (auto simp: visitedCells_def dest: eachCell_col_pos)

text \<open>
  All three indices are positive exactly when each kind of label has been seen: a
  column number is at least 1, and the initial index is -1.
\<close>

lemma headerFound_summary:
  assumes "\<forall>(r, c, t) \<in> set vs. 0 < c"
  shows "headerFound (summary headerInit vs) \<longleftrightarrow> allLabelsSeen vs"
proof -
  have pos: "\<And>labels r c. lastLabelled labels vs = Some (r, c) \<Longrightarrow> 0 < c"
    using assms lastLabelled_pos by blast
  show ?thesis
    by (auto simp: headerFound_def summary_def allLabelsSeen_def headerInit_def
        split: option.splits dest: pos)
qed

lemma headerScan_summary:
  assumes "\<forall>(r, c, t) \<in> set seen. 0 < c"
  shows "headerScan ws (summary headerInit seen) rows
         = summary headerInit (seen @ visitedCells ws (scannedRows ws seen rows))"
  using assms
proof (induction rows arbitrary: seen)
  case Nil
  then show ?case by (simp add: visitedCells_def)
next
  case (Cons r rows)
  let ?seen' = "seen @ visitedCells ws [r]"
  have step: "foldl (headerCell r) (summary headerInit seen) (eachCell (getRow ws r))
              = summary headerInit ?seen'"
    by (simp add: foldl_headerCell visitedCells_def)
  have pos': "\<forall>(r, c, t) \<in> set ?seen'. 0 < c"
    using Cons.prems by (auto dest: visitedCells_pos)
  show ?case
  proof (cases "allLabelsSeen ?seen'")
    case True
    then show ?thesis
      using headerFound_summary [OF pos'] by (simp add: step)
  next
    case False
    then have nf: "\<not> headerFound (summary headerInit ?seen')"
      using headerFound_summary [OF pos'] by simp
    have "visitedCells ws (r # scannedRows ws ?seen' rows)
          = visitedCells ws [r] @ visitedCells ws (scannedRows ws ?seen' rows)"
      by (rule visitedCells_Cons)
    then show ?thesis
      using False nf Cons.IH [OF pos'] by (simp add: step)
  qed
qed

lemma detectHeader_summary: "detectHeader ws = summary headerInit (scannedCells ws)"
  using headerScan_summary [of "[]" ws] by (simp add: detectHeader_def scannedCells_def)

text \<open>
  C7, as the code has it. Header detection reads the rows 1 to min(15, rowCount) and
  stops after the first row at whose end a gender label, a name label and a category
  label have all been seen. Among the cells read, the last one whose trimmed text is
  the gender label fixes genderCol and headerRow, the last one with either name label
  fixes nameCol and the last one with the category label fixes categoryCol: a later
  cell with the same label overwrites an earlier assignment. A field with no such cell
  keeps -1.
\<close>

theorem C7_header_last_match:
  "genderColIndex (detectHeader ws) =
     (case lastLabelled [seongbyeol] (scannedCells ws) of None \<Rightarrow> - 1 | Some (r, c) \<Rightarrow> int c) \<and>
   headerRowIndex (detectHeader ws) =
     (case lastLabelled [seongbyeol] (scannedCells ws) of None \<Rightarrow> - 1 | Some (r, c) \<Rightarrow> int r) \<and>
   nameColIndex (detectHeader ws) =
     (case lastLabelled [seongmyeong, ireum] (scannedCells ws) of
        None \<Rightarrow> - 1 | Some (r, c) \<Rightarrow> int c) \<and>
   categoryColIndex (detectHeader ws) =
     (case lastLabelled [gubun] (scannedCells ws) of None \<Rightarrow> - 1 | Some (r, c) \<Rightarrow> int c)"
  by (simp add: detectHeader_summary summary_def headerInit_def split: option.splits)

theorem C7_header_last_match_witness:
  "lastLabelled [seongbyeol] (scannedCells c7_sheet) = Some (1, 4) \<and>
   genderColIndex (detectHeader c7_sheet) = 4 \<and> headerRowIndex (detectHeader c7_sheet) = 1"
proof -
  have "lastLabelled [seongbyeol] (scannedCells c7_sheet) = Some (1, 4)"
    by (simp add: scannedCells_def visitedCells_def lastLabelled_def allLabelsSeen_def
        c7_sheet_def sheet_defs text_defs)
  then show ?thesis using C7_header_last_match [of c7_sheet] by simp
qed

text \<open>
  The claim as stated fails: in \<open>c7_sheet\<close> the first cell with the gender label is in
  column 1, and the column recorded is that of the later cell, 4.
\<close>

theorem C7_first_match_counterexample:
  "cellText (getCell (getRow c7_sheet 1) 1) = seongbyeol \<and>
   genderColIndex (detectHeader c7_sheet) = 4"
  by (simp add: c7_sheet_def header_defs sheet_defs text_defs)

section \<open>The date-column scan\<close>

lemma pushDate_distinct:
  "distinct (map col dhs) \<Longrightarrow> distinct (map col (pushDate dhs c d))"
  by (auto simp: pushDate_def hasCol_def list_ex_iff)

lemma dateCell_distinct:
  assumes "distinct (map col dhs)"
  shows "distinct (map col (dateCell cat dhs cc))"
proof -
  obtain c v where cc: "cc = (c, v)" by (cases cc)
  show ?thesis
    unfolding dateCell_def cc using assms
    by (simp add: pushDate_distinct Let_def split: cell_value.splits option.splits)
qed

lemma foldl_dateCell_distinct:
  "distinct (map col dhs) \<Longrightarrow> distinct (map col (foldl (dateCell cat) dhs cs))"
  by (induction cs arbitrary: dhs) (simp_all add: dateCell_distinct)

lemma dateScan_distinct:
  "distinct (map col dhs) \<Longrightarrow> distinct (map col (dateScan ws cat dhs rows))"
  by (induction rows arbitrary: dhs) (simp_all add: foldl_dateCell_distinct Let_def)

text \<open>No column gets two date headers: every push is guarded by the column test.\<close>

lemma sheetDateHeaders_distinct: "distinct (map col (sheetDateHeaders ws))"
proof -
  have "distinct (map col (dateScan ws cat [] rows))" for cat rows
    by (rule dateScan_distinct) simp
  then show ?thesis
    by (simp add: sheetDateHeaders_def findDateHeaders_def distinct_map)
qed

lemma sheetHeader_c8: "sheetHeader c8_sheet =
   \<lparr>genderColIndex = 1, nameColIndex = 2, categoryColIndex = 3, headerRowIndex = 1\<rparr>"
  by (simp add: c8_sheet_def header_defs sheet_defs text_defs)

text \<open>
  C8 at the failing input. The text 3/45 in a date column matches the month/day
  pattern, whose day is not checked against the range 1 to 31 (the bare-number pattern
  is): the scan returns a date header with day 45.
\<close>

theorem C8_day_out_of_range:
  "sheetDateHeaders c8_sheet = [\<lparr>col = 4, day = 45\<rparr>]"
  unfolding sheetDateHeaders_def sheetHeader_c8
  by (simp add: c8_sheet_def date_defs sheet_defs text_defs)

section \<open>The walk over the data rows, one row at a time\<close>

lemma walkRow_currentGender:
  "currentGender (walkRow hdr dhs st row) = filledGender hdr (currentGender st) row"
  by (simp add: walkRow_def filledGender_def genderValueOf_def Let_def ensureWorker_def)

lemma walkRow_currentName:
  "currentName (walkRow hdr dhs st row) = filledName hdr (currentName st) row"
  by (simp add: walkRow_def filledName_def nameValueOf_def Let_def ensureWorker_def)

lemma ensureWorker_fill:
  "workers (ensureWorker g n (st\<lparr>currentGender := g', currentName := n'\<rparr>)) = workers (ensureWorker g n st)"
  "workerOrder (ensureWorker g n (st\<lparr>currentGender := g', currentName := n'\<rparr>))
     = workerOrder (ensureWorker g n st)"
  by (simp_all add: ensureWorker_def Let_def)

lemma walkRow_workers:
  "workers (walkRow hdr dhs st row) =
     (if recognized hdr (currentName st) row
      then mapModify
             (workerKeyOf (filledGender hdr (currentGender st) row) (filledName hdr (currentName st) row))
             (storeRow (categoryValueOf hdr row) row dhs)
             (workers (ensureWorker (filledGender hdr (currentGender st) row)
                         (filledName hdr (currentName st) row) st))
      else workers st)"
  unfolding walkRow_def Let_def recognized_def filledGender_def filledName_def
    genderValueOf_def nameValueOf_def categoryValueOf_def
  by (simp add: ensureWorker_fill)

lemma walkRow_workerOrder:
  "workerOrder (walkRow hdr dhs st row) =
     (if recognized hdr (currentName st) row
      then workerOrder (ensureWorker (filledGender hdr (currentGender st) row)
                         (filledName hdr (currentName st) row) st)
      else workerOrder st)"
  unfolding walkRow_def Let_def recognized_def filledGender_def filledName_def
    genderValueOf_def nameValueOf_def categoryValueOf_def
  by (simp add: ensureWorker_fill)

lemma walk_snoc: "walk hdr dhs (rows @ [row]) = walkRow hdr dhs (walk hdr dhs rows) row"
  by (simp add: walk_def)

lemma walk_Nil: "walk hdr dhs [] = walkInit"
  by (simp add: walk_def)

section \<open>Properties of the workers kept by the walk\<close>

lemma mapModify_inv:
  "\<forall>(k', v) \<in> set m. P v \<Longrightarrow> (\<And>v. P v \<Longrightarrow> P (f v)) \<Longrightarrow> \<forall>(k', v) \<in> set (mapModify k f m). P v"
  by (induction m) (auto split: if_splits)

lemma storeRow_inv:
  assumes "\<And>w dh. P w \<Longrightarrow> P (storeHours c row w dh)" and "P w"
  shows "P (storeRow c row dhs w)"
  unfolding storeRow_def using assms(2) by (induction dhs arbitrary: w) (auto intro: assms(1))

lemma ensureWorker_inv:
  assumes "P (newWorker g n (workerOrder st))" and "\<forall>(k, w) \<in> set (workers st). P w"
  shows "\<forall>(k, w) \<in> set (workers (ensureWorker g n st)). P w"
  using assms by (auto simp: ensureWorker_def Let_def)

lemma walkRow_workers_inv:
  assumes new: "\<And>g n k. P (newWorker g n k)"
    and store: "\<And>c row w dh. P w \<Longrightarrow> P (storeHours c row w dh)"
    and inv: "\<forall>(k, w) \<in> set (workers st). P w"
  shows "\<forall>(k, w) \<in> set (workers (walkRow hdr dhs st row)). P w"
proof (cases "recognized hdr (currentName st) row")
  case True
  let ?g = "filledGender hdr (currentGender st) row"
  let ?n = "filledName hdr (currentName st) row"
  have "\<forall>(k, w) \<in> set (workers (ensureWorker ?g ?n st)). P w"
    by (rule ensureWorker_inv [OF new inv])
  then have "\<forall>(k, w) \<in> set (mapModify (workerKeyOf ?g ?n) (storeRow (categoryValueOf hdr row) row dhs)
                 (workers (ensureWorker ?g ?n st))). P w"
  proof (rule mapModify_inv)
    fix v assume v: "P v"
    show "P (storeRow (categoryValueOf hdr row) row dhs v)"
    proof (rule storeRow_inv [where P = P])
      fix w dh assume "P w"
      then show "P (storeHours (categoryValueOf hdr row) row w dh)" by (rule store)
    next
      show "P v" by (rule v)
    qed
  qed
  then show ?thesis
    unfolding walkRow_workers using True by simp
next
  case False
  then show ?thesis using inv by (simp add: walkRow_workers)
qed

lemma walk_workers_inv:
  assumes new: "\<And>g n k. P (newWorker g n k)"
    and store: "\<And>c row w dh. P w \<Longrightarrow> P (storeHours c row w dh)"
  shows "\<forall>(k, w) \<in> set (workers (walk hdr dhs rows)). P w"
proof (induction rows rule: rev_induct)
  case Nil
  then show ?case by (simp add: walk_def walkInit_def)
next
  case (snoc row rows)
  show ?case unfolding walk_snoc
    by (rule walkRow_workers_inv [OF new store snoc.IH])
qed

section \<open>Basic hours\<close>

lemma mapSet_inv:
  "\<forall>(d, v) \<in> set m. P v \<Longrightarrow> P v0 \<Longrightarrow> \<forall>(d, v) \<in> set (mapSet k v0 m). P v"
  by (induction m) (auto split: if_splits)

lemma storeHours_basic_gibon:
  "w_basicHours (storeHours gibon row w dh) =
     (if 0 < numValueOf (getCell row (col dh))
         \<and> numValueOf (getCell row (col dh)) \<in> set canonicalHours
      then mapSet (day dh) (numValueOf (getCell row (col dh))) (w_basicHours w)
      else w_basicHours w)"
  by (simp add: storeHours_def Let_def)

lemma storeHours_basic_other:
  "c \<noteq> gibon \<Longrightarrow> w_basicHours (storeHours c row w dh) = w_basicHours w"
  by (simp add: storeHours_def Let_def)

lemma storeHours_canonical:
  assumes "canonicalBasic w"
  shows "canonicalBasic (storeHours c row w dh)"
proof (cases "c = gibon")
  case gibon: True
  show ?thesis
  proof (cases "0 < numValueOf (getCell row (col dh))
         \<and> numValueOf (getCell row (col dh)) \<in> set canonicalHours")
    case True
    have "\<forall>(d, v) \<in> set (mapSet (day dh) (numValueOf (getCell row (col dh))) (w_basicHours w)).
        v \<in> set canonicalHours"
    proof (rule mapSet_inv [where P = "\<lambda>v. v \<in> set canonicalHours"])
      show "\<forall>(d, v) \<in> set (w_basicHours w). v \<in> set canonicalHours"
        using assms unfolding canonicalBasic_def .
      show "numValueOf (getCell row (col dh)) \<in> set canonicalHours"
        using True by (rule conjunct2)
    qed
    moreover have "w_basicHours (storeHours gibon row w dh)
        = mapSet (day dh) (numValueOf (getCell row (col dh))) (w_basicHours w)"
      unfolding storeHours_basic_gibon using True by (rule if_P)
    ultimately show ?thesis unfolding canonicalBasic_def gibon by simp
  next
    case False
    then have "w_basicHours (storeHours gibon row w dh) = w_basicHours w"
      unfolding storeHours_basic_gibon by (rule if_not_P)
    then show ?thesis using assms unfolding canonicalBasic_def gibon by simp
  qed
next
  case False
  then show ?thesis using assms unfolding canonicalBasic_def by (simp add: storeHours_basic_other)
qed

lemma newWorker_canonical: "canonicalBasic (newWorker g n k)"
  by (simp add: canonicalBasic_def newWorker_def)

lemma storeHours_noncanonical:
  "numValueOf (getCell row (col dh)) \<notin> set canonicalHours \<Longrightarrow> storeHours gibon row w dh = w"
  by (simp add: storeHours_def Let_def)

lemma sheetWorkers_canonical: "\<forall>(k, w) \<in> set (sheetWorkers ws). canonicalBasic w"
  unfolding sheetWorkers_def
  by (rule walk_workers_inv [of canonicalBasic, OF newWorker_canonical storeHours_canonical])

lemma canonicalHours_set: "set canonicalHours = {8, 6, 5 / 2, 1}"
  by (simp add: canonicalHours_def)

text \<open>
  C4. After reconstruction every value in every worker's basic-hours map is one of 8, 6,
  2.5 and 1. A cell of a basic-category row that holds any other positive number stores
  nothing: the worker record is unchanged, so a day that was absent from the basic map
  stays absent.
\<close>

theorem C4_basic_canonical:
  "(\<forall>(k, w) \<in> set (sheetWorkers ws). \<forall>(d, v) \<in> set (w_basicHours w). v \<in> {8, 6, 5 / 2, 1}) \<and>
   (0 < numValueOf (getCell row (col dh)) \<and> numValueOf (getCell row (col dh)) \<notin> {8, 6, 5 / 2, 1}
      \<longrightarrow> storeHours gibon row w dh = w)"
proof (intro conjI impI)
  show "\<forall>(k, w) \<in> set (sheetWorkers ws). \<forall>(d, v) \<in> set (w_basicHours w). v \<in> {8, 6, 5 / 2, 1}"
    using sheetWorkers_canonical [of ws] unfolding canonicalBasic_def canonicalHours_set by blast
next
  assume "0 < numValueOf (getCell row (col dh)) \<and> numValueOf (getCell row (col dh)) \<notin> {8, 6, 5 / 2, 1}"
  then have "numValueOf (getCell row (col dh)) \<notin> set canonicalHours"
    unfolding canonicalHours_set by blast
  then show "storeHours gibon row w dh = w"
    by (rule storeHours_noncanonical)
qed

section \<open>Emitted rows\<close>

lemma set_foldl_setAdd: "set (foldl setAdd acc xs) = set acc \<union> set xs"
  by (induction xs arbitrary: acc) (auto simp: setAdd_def)

lemma set_allDaysOf:
  "set (allDaysOf w) = fst ` set (w_basicHours w) \<union> fst ` set (w_weekendSpecialHours w)
                        \<union> fst ` set (w_weeklyHolidayHours w)"
  by (simp add: allDaysOf_def set_foldl_setAdd)

lemma workerRows_date: "t \<in> set (workerRows w) \<Longrightarrow> date t \<in> set (allDaysOf w)"
  by (auto simp: workerRows_def Let_def split: if_splits)

lemma workerRows_hours:
  "t \<in> set (workerRows w) \<Longrightarrow> 0 < basicHours t \<or> 0 < weekendSpecialHours t \<or> 0 < weeklyHolidayHours t"
  by (auto simp: workerRows_def Let_def split: if_splits)

lemma workerRows_fields:
  "t \<in> set (workerRows w) \<Longrightarrow>
     gender t = w_gender w \<and> name t = w_name w \<and> row_workerOrder t = w_order w"
  by (auto simp: workerRows_def Let_def split: if_splits)

lemma set_tempRowsOf: "set (tempRowsOf wks) = (\<Union>(k, w) \<in> set wks. set (workerRows w))"
  by (auto simp: tempRowsOf_def)

lemma set_sheetTempRows: "set (sheetTempRows ws) = (\<Union>(k, w) \<in> set (sheetWorkers ws). set (workerRows w))"
  by (simp add: sheetTempRows_def sortTempRows_def set_tempRowsOf)

lemma set_parseAttendanceSheet:
  "set (parseAttendanceSheet ws)
   = (\<Union>(k, w) \<in> set (sheetWorkers ws). toAttendanceRow ` set (workerRows w))"
  by (auto simp: parseAttendanceSheet_def set_sheetTempRows)

lemma toAttendanceRow_fields [simp]:
  "gender (toAttendanceRow t) = gender t" "name (toAttendanceRow t) = name t"
  "date (toAttendanceRow t) = date t" "basicHours (toAttendanceRow t) = basicHours t"
  "overtimeHours (toAttendanceRow t) = overtimeHours t"
  "weekendSpecialHours (toAttendanceRow t) = weekendSpecialHours t"
  "weeklyHolidayHours (toAttendanceRow t) = weeklyHolidayHours t"
  by (simp_all add: toAttendanceRow_def)

text \<open>
  C5. Every row returned by \<open>parseAttendanceSheet\<close> has positive basic, weekend-special
  or weekly-holiday hours. The rows returned are the rows emitted for the workers, and
  the rows emitted for a worker have their days among the keys of the worker's basic,
  weekend-special and weekly-holiday maps: a day recorded in the overtime map alone
  yields no row.
\<close>

theorem C5_rows_have_hours:
  "(\<forall>r \<in> set (parseAttendanceSheet ws).
      0 < basicHours r \<or> 0 < weekendSpecialHours r \<or> 0 < weeklyHolidayHours r) \<and>
   set (parseAttendanceSheet ws)
     = (\<Union>(k, w) \<in> set (sheetWorkers ws). toAttendanceRow ` set (workerRows w)) \<and>
   (\<forall>t \<in> set (workerRows w).
      date t \<in> fst ` set (w_basicHours w) \<union> fst ` set (w_weekendSpecialHours w)
               \<union> fst ` set (w_weeklyHolidayHours w))"
proof (intro conjI ballI)
  fix r assume "r \<in> set (parseAttendanceSheet ws)"
  then obtain k w' t where "t \<in> set (workerRows w')" "r = toAttendanceRow t"
    unfolding set_parseAttendanceSheet by blast
  then show "0 < basicHours r \<or> 0 < weekendSpecialHours r \<or> 0 < weeklyHolidayHours r"
    using workerRows_hours [of t w'] by simp
next
  show "set (parseAttendanceSheet ws)
     = (\<Union>(k, w) \<in> set (sheetWorkers ws). toAttendanceRow ` set (workerRows w))"
    by (rule set_parseAttendanceSheet)
next
  fix t assume "t \<in> set (workerRows w)"
  then show "date t \<in> fst ` set (w_basicHours w) \<union> fst ` set (w_weekendSpecialHours w)
               \<union> fst ` set (w_weeklyHolidayHours w)"
    using workerRows_date [of t w] unfolding set_allDaysOf by blast
qed

section \<open>Row order\<close>

lemma foldl_setAdd_firsts:
  "foldl setAdd acc xs = acc @ filter (\<lambda>y. y \<notin> set acc) (firsts xs)"
proof (induction xs arbitrary: acc)
  case Nil
  then show ?case by simp
next
  case (Cons x xs)
  show ?case
  proof (cases "x \<in> set acc")
    case True
    have "filter (\<lambda>y. y \<notin> set acc) (filter (\<lambda>y. y \<noteq> x) (firsts xs))
          = filter (\<lambda>y. y \<notin> set acc) (firsts xs)"
      using True by (auto intro: filter_cong)
    then show ?thesis using True Cons.IH [of acc] by (simp add: setAdd_def)
  next
    case False
    have "filter (\<lambda>y. y \<notin> set (acc @ [x])) (firsts xs)
          = filter (\<lambda>y. y \<notin> set acc) (filter (\<lambda>y. y \<noteq> x) (firsts xs))"
      by (auto intro: filter_cong)
    then show ?thesis using False Cons.IH [of "acc @ [x]"] by (simp add: setAdd_def)
  qed
qed

lemma foldl_setAdd_Nil: "foldl setAdd [] xs = firsts xs"
  by (simp add: foldl_setAdd_firsts)

lemma firsts_snoc: "firsts (xs @ [x]) = setAdd (firsts xs) x"
  unfolding foldl_setAdd_Nil [symmetric] by simp

lemma distinct_firsts: "distinct (firsts xs)"
  by (induction xs) auto

lemma index_of_nth:
  "distinct xs \<Longrightarrow> i < length xs \<Longrightarrow> length (takeWhile (\<lambda>y. y \<noteq> xs ! i) xs) = i"
proof (induction xs arbitrary: i)
  case Nil
  then show ?case by simp
next
  case (Cons x xs)
  show ?case
  proof (cases i)
    case 0
    then show ?thesis by simp
  next
    case (Suc j)
    with Cons.prems have "xs ! j \<in> set xs" "x \<notin> set xs" by auto
    then have "x \<noteq> xs ! j" by auto
    then show ?thesis using Suc Cons by simp
  qed
qed

lemma workerKeyOf_inj: "workerKeyOf g n = workerKeyOf g' n' \<longleftrightarrow> g = g' \<and> n = n'"
  by (cases g; cases g') (simp_all add: workerKeyOf_def genderText_def)

lemma expected_snoc:
  "expected (ps @ [p]) = expected ps @ [(workerKeyOf (fst p) (snd p), p, length ps)]"
  by (simp add: expected_def enumerate_append_eq)

lemma map_fst_expected: "map fst (expected ps) = map (\<lambda>p. workerKeyOf (fst p) (snd p)) ps"
  by (induction ps rule: rev_induct) (simp_all add: expected_snoc, simp add: expected_def)

lemma map_fst_proj: "map fst (map proj wks) = map fst wks"
  by (simp add: proj_def)

lemma mapHas_walkInv:
  assumes "walkInv st ps"
  shows "mapHas (workers st) (workerKeyOf g n) \<longleftrightarrow> (g, n) \<in> set ps"
proof -
  have "map fst (workers st) = map (\<lambda>p. workerKeyOf (fst p) (snd p)) ps"
    using assms map_fst_proj [of "workers st"] by (simp add: walkInv_def map_fst_expected)
  then have "mapHas (workers st) (workerKeyOf g n)
      \<longleftrightarrow> workerKeyOf g n \<in> (\<lambda>p. workerKeyOf (fst p) (snd p)) ` set ps"
    by (simp add: mapHas_def)
  also have "\<dots> \<longleftrightarrow> (g, n) \<in> set ps"
    by (force simp: workerKeyOf_inj image_iff)
  finally show ?thesis .
qed

lemma storeHours_ident:
  "w_gender (storeHours c row w dh) = w_gender w"
  "w_name (storeHours c row w dh) = w_name w"
  "w_order (storeHours c row w dh) = w_order w"
  by (simp_all add: storeHours_def Let_def)

lemma storeRow_ident:
  "w_gender (storeRow c row dhs w) = w_gender w \<and> w_name (storeRow c row dhs w) = w_name w
   \<and> w_order (storeRow c row dhs w) = w_order w"
  unfolding storeRow_def by (induction dhs arbitrary: w) (simp_all add: storeHours_ident)

lemma map_proj_mapModify:
  "map proj (mapModify k (storeRow c row dhs) m) = map proj m"
  by (induction m) (auto simp: proj_def storeRow_ident)

lemma walkInv_ensureWorker:
  assumes "walkInv st ps"
  shows "walkInv (ensureWorker g n st) (setAdd ps (g, n))"
proof (cases "(g, n) \<in> set ps")
  case True
  then have "mapHas (workers st) (workerKeyOf g n)" using mapHas_walkInv [OF assms] by simp
  then show ?thesis using assms True by (simp add: ensureWorker_def setAdd_def)
next
  case False
  then have "\<not> mapHas (workers st) (workerKeyOf g n)" using mapHas_walkInv [OF assms] by simp
  then show ?thesis using assms False
    by (simp add: ensureWorker_def setAdd_def walkInv_def expected_snoc proj_def newWorker_def)
qed

lemma walkInv_walkRow:
  assumes "walkInv st (firsts ks)"
  shows "walkInv (walkRow hdr dhs st row)
           (firsts (ks @ (if recognized hdr (currentName st) row
                          then [(filledGender hdr (currentGender st) row,
                                 filledName hdr (currentName st) row)]
                          else [])))"
proof (cases "recognized hdr (currentName st) row")
  case True
  let ?g = "filledGender hdr (currentGender st) row"
  let ?n = "filledName hdr (currentName st) row"
  have "walkInv (ensureWorker ?g ?n st) (setAdd (firsts ks) (?g, ?n))"
    by (rule walkInv_ensureWorker [OF assms])
  then show ?thesis
    using True
    by (simp add: walkInv_def walkRow_workers walkRow_workerOrder map_proj_mapModify firsts_snoc)
next
  case False
  then show ?thesis using assms
    by (simp add: walkInv_def walkRow_workers walkRow_workerOrder)
qed

lemma walkInv_foldl:
  assumes "walkInv st (firsts ks)"
  shows "walkInv (foldl (walkRow hdr dhs) st rows)
           (firsts (ks @ recognizedKeys hdr (currentGender st) (currentName st) rows))"
  using assms
proof (induction rows arbitrary: st ks)
  case Nil
  then show ?case by simp
next
  case (Cons row rows)
  let ?k = "if recognized hdr (currentName st) row
            then [(filledGender hdr (currentGender st) row, filledName hdr (currentName st) row)]
            else []"
  have "walkInv (walkRow hdr dhs st row) (firsts (ks @ ?k))"
    by (rule walkInv_walkRow [OF Cons.prems])
  from Cons.IH [OF this] show ?case
    by (simp add: walkRow_currentGender walkRow_currentName)
qed

lemma walkInv_sheet:
  "map proj (sheetWorkers ws) = expected (discoveryOrder ws)"
proof -
  have "walkInv walkInit (firsts [])" by (simp add: walkInv_def walkInit_def expected_def)
  from walkInv_foldl [OF this, of "sheetHeader ws" "sheetDateHeaders ws" "dataRows ws (sheetHeader ws)"]
  show ?thesis
    by (simp add: walkInv_def sheetWorkers_def walk_def discoveryOrder_def walkInit_def)
qed

lemma tempRow_order:
  assumes "t \<in> set (sheetTempRows ws)"
  shows "row_workerOrder t = discoveryIndex ws (toAttendanceRow t)"
proof -
  let ?ps = "discoveryOrder ws"
  from assms obtain k w where kw: "(k, w) \<in> set (sheetWorkers ws)" and t: "t \<in> set (workerRows w)"
    unfolding set_sheetTempRows by blast
  have "proj (k, w) \<in> set (map proj (sheetWorkers ws))" using kw by (simp add: rev_image_eqI)
  then have "(k, (w_gender w, w_name w), w_order w) \<in> set (expected ?ps)"
    by (simp add: walkInv_sheet proj_def)
  then have "(w_order w, (w_gender w, w_name w)) \<in> set (enumerate 0 ?ps)"
    by (auto simp: expected_def)
  then have i: "w_order w < length ?ps" and p: "?ps ! w_order w = (w_gender w, w_name w)"
    by (simp_all add: in_set_enumerate_eq)
  have "distinct ?ps" by (simp add: discoveryOrder_def distinct_firsts)
  from index_of_nth [OF this i]
  have "length (takeWhile (\<lambda>y. y \<noteq> (w_gender w, w_name w)) ?ps) = w_order w"
    by (simp add: p)
  then show ?thesis
    using workerRows_fields [OF t] by (simp add: discoveryIndex_def)
qed

lemma map_concat_if:
  "(\<And>d. f (g d) = d) \<Longrightarrow> map f (concat (map (\<lambda>d. if P d then [g d] else []) ds)) = filter P ds"
  by (induction ds) simp_all

lemma workerRows_days: "map date (workerRows w) = filter (\<lambda>d.
    0 < getOrZero (w_basicHours w) d \<or> 0 < getOrZero (w_weekendSpecialHours w) d
    \<or> 0 < getOrZero (w_weeklyHolidayHours w) d) (allDaysOf w)"
  unfolding workerRows_def Let_def by (rule map_concat_if) simp

lemma distinct_foldl_setAdd: "distinct acc \<Longrightarrow> distinct (foldl setAdd acc xs)"
  by (induction xs arbitrary: acc) (simp_all add: setAdd_def)

lemma distinct_workerRows_days: "distinct (map date (workerRows w))"
  unfolding workerRows_days by (simp add: allDaysOf_def distinct_foldl_setAdd)

lemma distinct_workerRows_keys: "distinct (map rowKey (workerRows w))"
proof -
  have e: "map fst (map rowKey (workerRows w)) = map date (workerRows w)"
    by (simp add: rowKey_def comp_def)
  have "distinct (map fst (map rowKey (workerRows w)))"
    unfolding e by (rule distinct_workerRows_days)
  then show ?thesis
    using distinct_map [of fst "map rowKey (workerRows w)"] by blast
qed

lemma distinct_tempRows_keys:
  "distinct (map (\<lambda>(k, w). w_order w) wks) \<Longrightarrow> distinct (map rowKey (tempRowsOf wks))"
proof (induction wks)
  case Nil
  then show ?case by (simp add: tempRowsOf_def)
next
  case (Cons kw wks)
  obtain k w where kw: "kw = (k, w)" by (cases kw)
  have split: "tempRowsOf (kw # wks) = workerRows w @ tempRowsOf wks"
    by (simp add: tempRowsOf_def kw)
  have rest: "distinct (map rowKey (tempRowsOf wks))" using Cons by simp
  have disj: "rowKey ` set (workerRows w) \<inter> rowKey ` set (tempRowsOf wks) = {}"
  proof (rule ccontr)
    assume "rowKey ` set (workerRows w) \<inter> rowKey ` set (tempRowsOf wks) \<noteq> {}"
    then obtain a b where a: "a \<in> set (workerRows w)" and b: "b \<in> set (tempRowsOf wks)"
      and eq: "rowKey a = rowKey b" by blast
    from b obtain k' w' where kw': "(k', w') \<in> set wks" and b': "b \<in> set (workerRows w')"
      unfolding set_tempRowsOf by blast
    have "w_order w = w_order w'"
      using eq workerRows_fields [OF a] workerRows_fields [OF b'] by (simp add: rowKey_def)
    moreover have "w_order w \<notin> (\<lambda>(k, w). w_order w) ` set wks"
      using Cons.prems by (simp add: kw)
    ultimately show False using kw' by force
  qed
  show ?case
    unfolding split using rest disj distinct_workerRows_keys [of w] by simp
qed

lemma orders_sheetWorkers:
  "map (\<lambda>(k, w). w_order w) (sheetWorkers ws) = [0..<length (discoveryOrder ws)]"
proof -
  have "map (\<lambda>(k, w). w_order w) (sheetWorkers ws) = map (\<lambda>x. snd (snd x)) (map proj (sheetWorkers ws))"
    by (simp add: proj_def case_prod_beta)
  also have "\<dots> = map fst (enumerate 0 (discoveryOrder ws))"
    unfolding walkInv_sheet expected_def by (simp add: case_prod_beta comp_def)
  finally show ?thesis by simp
qed

lemma distinct_sheetTempRows_keys: "distinct (map rowKey (sheetTempRows ws))"
proof -
  have d: "distinct (map rowKey (tempRowsOf (sheetWorkers ws)))"
    by (rule distinct_tempRows_keys) (simp add: orders_sheetWorkers)
  then have "distinct (tempRowsOf (sheetWorkers ws))" "inj_on rowKey (set (tempRowsOf (sheetWorkers ws)))"
    by (simp_all add: distinct_map)
  then show ?thesis
    by (simp add: sheetTempRows_def sortTempRows_def distinct_map)
qed

lemma sorted_sheetTempRows_keys: "sorted (map rowKey (sheetTempRows ws))"
proof -
  have "sortTempRows xs = sort_key rowKey xs" for xs
    by (simp add: sortTempRows_def rowKey_def [abs_def])
  then show ?thesis by (simp add: sheetTempRows_def)
qed

text \<open>
  C6. The rows returned by \<open>parseAttendanceSheet\<close> are sorted by day and, within a day,
  by the position of the row's worker in the discovery order (the order in which each
  gender and name pair first produced a recognized category row); of any two rows the
  earlier one has the smaller day, or the same day and the smaller discovery index.
\<close>

theorem C6_rows_sorted:
  "sorted_wrt (\<lambda>a b. date a < date b \<or> (date a = date b \<and> discoveryIndex ws a < discoveryIndex ws b))
     (parseAttendanceSheet ws)"
proof -
  have "sorted_wrt (<) (map rowKey (sheetTempRows ws))"
    using sorted_sheetTempRows_keys distinct_sheetTempRows_keys
    by (simp add: strict_sorted_iff)
  then have "sorted_wrt (\<lambda>s t. rowKey s < rowKey t) (sheetTempRows ws)"
    by (simp add: sorted_wrt_map)
  then have "sorted_wrt (\<lambda>s t. date (toAttendanceRow s) < date (toAttendanceRow t)
        \<or> (date (toAttendanceRow s) = date (toAttendanceRow t)
           \<and> discoveryIndex ws (toAttendanceRow s) < discoveryIndex ws (toAttendanceRow t)))
      (sheetTempRows ws)"
  proof (rule sorted_wrt_mono_rel [rotated])
    fix s t assume "s \<in> set (sheetTempRows ws)" "t \<in> set (sheetTempRows ws)"
      and lt: "rowKey s < rowKey t"
    then have "row_workerOrder s = discoveryIndex ws (toAttendanceRow s)"
      "row_workerOrder t = discoveryIndex ws (toAttendanceRow t)"
      by (simp_all add: tempRow_order)
    then show "date (toAttendanceRow s) < date (toAttendanceRow t)
        \<or> (date (toAttendanceRow s) = date (toAttendanceRow t)
           \<and> discoveryIndex ws (toAttendanceRow s) < discoveryIndex ws (toAttendanceRow t))"
      using lt by (auto simp: rowKey_def less_prod_def)
  qed
  then show ?thesis
    by (simp add: parseAttendanceSheet_def sorted_wrt_map)
qed

section \<open>Forward fill\<close>

text \<open>
  C9, as the code has it. The walk starts with the current gender male and the current
  name empty. A row sets the current gender when the trimmed text of its gender cell is
  one of the two gender syllables and leaves it unchanged for any other text, empty or
  not; it sets the current name when the trimmed text of its name cell is not empty and
  leaves it unchanged otherwise. A row at which the current name is still empty adds
  nothing to the workers, and as long as no row has had a name the worker map is empty.
\<close>

theorem C9_forward_fill:
  "currentGender walkInit = Nam \<and> currentName walkInit = [] \<and>
   currentGender (walkRow hdr dhs st row) =
     (if genderValueOf hdr row = genderText Nam then Nam
      else if genderValueOf hdr row = genderText Yeo then Yeo
      else currentGender st) \<and>
   currentName (walkRow hdr dhs st row) =
     (if nameValueOf hdr row \<noteq> [] then nameValueOf hdr row else currentName st) \<and>
   (currentName (walkRow hdr dhs st row) = [] \<longrightarrow>
      workers (walkRow hdr dhs st row) = workers st \<and>
      workerOrder (walkRow hdr dhs st row) = workerOrder st) \<and>
   ((\<forall>r \<in> set rows. nameValueOf hdr r = []) \<longrightarrow> workers (walk hdr dhs rows) = [])"
proof (intro conjI impI)
  show "currentGender walkInit = Nam" "currentName walkInit = []"
    by (simp_all add: walkInit_def)
  show "currentGender (walkRow hdr dhs st row) =
     (if genderValueOf hdr row = genderText Nam then Nam
      else if genderValueOf hdr row = genderText Yeo then Yeo
      else currentGender st)"
    by (simp add: walkRow_currentGender filledGender_def)
  show "currentName (walkRow hdr dhs st row) =
     (if nameValueOf hdr row \<noteq> [] then nameValueOf hdr row else currentName st)"
    by (simp add: walkRow_currentName filledName_def)
next
  assume e: "currentName (walkRow hdr dhs st row) = []"
  then have "\<not> recognized hdr (currentName st) row"
    by (simp add: walkRow_currentName recognized_def)
  then show "workers (walkRow hdr dhs st row) = workers st"
    and "workerOrder (walkRow hdr dhs st row) = workerOrder st"
    by (simp_all add: walkRow_workers walkRow_workerOrder)
next
  assume "\<forall>r \<in> set rows. nameValueOf hdr r = []"
  then have "currentName (walk hdr dhs rows) = [] \<and> workers (walk hdr dhs rows) = []"
  proof (induction rows rule: rev_induct)
    case Nil
    then show ?case by (simp add: walk_Nil walkInit_def)
  next
    case (snoc r rows)
    then have ih: "currentName (walk hdr dhs rows) = []" "workers (walk hdr dhs rows) = []"
      and nv: "nameValueOf hdr r = []" by simp_all
    have "\<not> recognized hdr (currentName (walk hdr dhs rows)) r"
      by (simp add: recognized_def filledName_def nv ih)
    then show ?case
      by (simp add: walk_snoc walkRow_currentName walkRow_workers filledName_def nv ih)
  qed
  then show "workers (walk hdr dhs rows) = []" by simp
qed

theorem C9_forward_fill_witness:
  "currentName (walkRow c9_header [] walkInit [Str [50668] 0, Null, Str gibon 0, Num 8 [56]]) = [] \<and>
   workers (walkRow c9_header [] walkInit [Str [50668] 0, Null, Str gibon 0, Num 8 [56]]) = [] \<and>
   currentGender (walkRow c9_header [] walkInit [Str [50668] 0, Null, Str gibon 0, Num 8 [56]]) = Yeo \<and>
   workers (walk c9_header [] [[Str [50668] 0, Null, Str gibon 0, Num 8 [56]]]) = []"
  using C9_forward_fill [of c9_header "[]" walkInit "[Str [50668] 0, Null, Str gibon 0, Num 8 [56]]"
      "[[Str [50668] 0, Null, Str gibon 0, Num 8 [56]]]"]
  by (simp add: c9_header_def genderValueOf_def nameValueOf_def getCell_def text_defs walkInit_def)

lemma sheetHeader_c9: "sheetHeader c9_sheet = c9_header"
  by (simp add: c9_sheet_def c9_header_def header_defs sheet_defs text_defs)

lemma sheetDateHeaders_c9: "sheetDateHeaders c9_sheet = [\<lparr>col = 4, day = 1\<rparr>]"
  unfolding sheetDateHeaders_def sheetHeader_c9
  by (simp add: c9_sheet_def c9_header_def date_defs sheet_defs text_defs)

lemma sheetWorkers_c9:
  "sheetWorkers c9_sheet =
     [([50668, 45, 65],
       \<lparr>w_gender = Yeo, w_name = [65], w_order = 0, w_basicHours = [(1, 8)],
        w_overtimeHours = [], w_weekendSpecialHours = [], w_weeklyHolidayHours = []\<rparr>),
      ([50668, 45, 66],
       \<lparr>w_gender = Yeo, w_name = [66], w_order = 1, w_basicHours = [(1, 8)],
        w_overtimeHours = [], w_weekendSpecialHours = [], w_weeklyHolidayHours = []\<rparr>)]"
  unfolding sheetWorkers_def sheetDateHeaders_c9 sheetHeader_c9
  by (simp add: c9_sheet_def c9_header_def walk_defs sheet_defs text_defs Let_def)

text \<open>
  The claim as stated fails: the gender cell of row 3 of \<open>c9_sheet\<close> is not empty, yet
  the current gender stays female, and the row of worker B is emitted as female.
\<close>

theorem C9_gender_not_updated_counterexample:
  "genderValueOf (sheetHeader c9_sheet) (getRow c9_sheet 3) = [45224, 51088] \<and>
   map gender (parseAttendanceSheet c9_sheet) = [Yeo, Yeo] \<and>
   map name (parseAttendanceSheet c9_sheet) = [[65], [66]]"
  unfolding parseAttendanceSheet_def sheetTempRows_def sheetWorkers_c9 sheetHeader_c9
  by (simp add: rows_defs Let_def genderValueOf_def c9_header_def c9_sheet_def sheet_defs text_defs)

section \<open>The demonstration sheet\<close>

lemma sheetHeader_demo: "sheetHeader demo_sheet =
   \<lparr>genderColIndex = 1, nameColIndex = 2, categoryColIndex = 3, headerRowIndex = 1\<rparr>"
  by (simp add: demo_sheet_def header_defs sheet_defs text_defs)

lemma sheetDateHeaders_demo:
  "sheetDateHeaders demo_sheet = [\<lparr>col = 4, day = 1\<rparr>, \<lparr>col = 5, day = 5\<rparr>]"
  unfolding sheetDateHeaders_def sheetHeader_demo
  by (simp add: demo_sheet_def date_defs sheet_defs text_defs)

lemma sheetWorkers_demo:
  "sheetWorkers demo_sheet =
     [([45224, 45, 66],
       \<lparr>w_gender = Nam, w_name = [66], w_order = 0, w_basicHours = [(1, 8), (5, 8)],
        w_overtimeHours = [(1, 2)], w_weekendSpecialHours = [], w_weeklyHolidayHours = []\<rparr>),
      ([50668, 45, 65],
       \<lparr>w_gender = Yeo, w_name = [65], w_order = 1, w_basicHours = [(5, 6)],
        w_overtimeHours = [(1, 3)], w_weekendSpecialHours = [], w_weeklyHolidayHours = []\<rparr>)]"
  unfolding sheetWorkers_def sheetDateHeaders_demo sheetHeader_demo
  by (simp add: demo_sheet_def walk_defs sheet_defs text_defs Let_def)

lemma parse_demo:
  "parseAttendanceSheet demo_sheet =
     [\<lparr>gender = Nam, name = [66], date = 1, basicHours = 8, overtimeHours = 2,
       weekendSpecialHours = 0, weeklyHolidayHours = 0\<rparr>,
      \<lparr>gender = Nam, name = [66], date = 5, basicHours = 8, overtimeHours = 0,
       weekendSpecialHours = 0, weeklyHolidayHours = 0\<rparr>,
      \<lparr>gender = Yeo, name = [65], date = 5, basicHours = 6, overtimeHours = 0,
       weekendSpecialHours = 0, weeklyHolidayHours = 0\<rparr>]"
  unfolding parseAttendanceSheet_def sheetTempRows_def sheetWorkers_demo
  by (simp add: rows_defs Let_def)

theorem C4_basic_canonical_witness:
  "map (\<lambda>(k, w). w_basicHours w) (sheetWorkers demo_sheet) = [[(1, 8), (5, 8)], [(5, 6)]] \<and>
   0 < numValueOf (getCell [Str [50668] 0, Str [65] 0, Str gibon 0, Num 4 [52], Num 6 [54]] 4) \<and>
   numValueOf (getCell [Str [50668] 0, Str [65] 0, Str gibon 0, Num 4 [52], Num 6 [54]] 4)
     \<notin> {8, 6, 5 / 2, 1} \<and>
   storeHours gibon [Str [50668] 0, Str [65] 0, Str gibon 0, Num 4 [52], Num 6 [54]]
     (newWorker Yeo [65] 1) \<lparr>col = 4, day = 1\<rparr> = newWorker Yeo [65] 1"
  using C4_basic_canonical [of demo_sheet
      "[Str [50668] 0, Str [65] 0, Str gibon 0, Num 4 [52], Num 6 [54]]"
      "\<lparr>col = 4, day = 1\<rparr>" "newWorker Yeo [65] 1"]
  by (simp add: sheetWorkers_demo getCell_def numValueOf_def)

theorem C5_rows_have_hours_witness:
  "map (\<lambda>r. (name r, date r, basicHours r)) (parseAttendanceSheet demo_sheet)
     = [([66], 1, 8), ([66], 5, 8), ([65], 5, 6)] \<and>
   map date (workerRows
     \<lparr>w_gender = Yeo, w_name = [65], w_order = 1, w_basicHours = [(5, 6)],
      w_overtimeHours = [(1, 3)], w_weekendSpecialHours = [], w_weeklyHolidayHours = []\<rparr>) = [5]"
  using C5_rows_have_hours [of demo_sheet
     "\<lparr>w_gender = Yeo, w_name = [65], w_order = 1, w_basicHours = [(5, 6)],
      w_overtimeHours = [(1, 3)], w_weekendSpecialHours = [], w_weeklyHolidayHours = []\<rparr>"]
  by (simp add: parse_demo workerRows_def allDaysOf_def setAdd_def getOrZero_def Let_def)

lemma discoveryOrder_demo: "discoveryOrder demo_sheet = [(Nam, [66]), (Yeo, [65])]"
  unfolding discoveryOrder_def sheetHeader_demo
  by (simp add: demo_sheet_def dataRows_def recognized_def filledGender_def filledName_def
      genderValueOf_def nameValueOf_def categoryValueOf_def sheet_defs text_defs)

theorem C6_rows_sorted_witness:
  "map (\<lambda>r. (date r, name r, discoveryIndex demo_sheet r)) (parseAttendanceSheet demo_sheet)
     = [(1, [66], 0), (5, [66], 0), (5, [65], 1)]"
  using C6_rows_sorted [of demo_sheet]
  by (simp add: parse_demo discoveryIndex_def discoveryOrder_demo)

end
